theory Spec2Isabelle
  imports Complex_Main
begin

section \<open>Data model of \<open>src/core/paths.ts\<close>\<close>

text \<open>
  A point is the two-element number array \<open>[x, y]\<close>. JavaScript numbers are modelled as
  exact reals: rounding, infinities and NaN are outside this development. A field that a
  constructor never assigns holds \<open>undefined\<close>, which is \<open>None\<close> here.
\<close>

type_synonym IPoint = "real \<times> real"

text \<open>
  Modelled from the spec: the tags \<open>pathType.Line\<close>, \<open>pathType.Circle\<close>, \<open>pathType.Arc\<close>
  and \<open>pathType.BezierSeed\<close> that the constructors assign; their declaration is not part
  of the source file, the spec lists the tagged union as these four variants.
\<close>

datatype pathType = pathType_Line | pathType_Circle | pathType_Arc | pathType_BezierSeed

text \<open>Fields of the classes \<open>Circle\<close> and \<open>Arc\<close> (an arc is a circle object with two angles).\<close>

record IPathCircle =
  ptype :: "pathType option"
  origin :: "IPoint option"
  radius :: "real option"

record IPathArc = IPathCircle +
  startAngle :: "real option"
  endAngle :: "real option"

text \<open>Fields of the classes \<open>Line\<close>, \<open>Chord\<close> and \<open>Parallel\<close>.\<close>

record IPathLine =
  line_type :: pathType
  line_origin :: IPoint
  line_end :: IPoint

text \<open>
  What the field \<open>controls\<close> of a \<open>BezierSeed\<close> can hold: an array of points, or the array
  of the two numbers of one point (the three-argument constructor stores its second
  argument as it is).
\<close>

datatype controls_value = PointArray "IPoint list" | NumberArray IPoint

text \<open>Fields of the class \<open>BezierSeed\<close>.\<close>

record IPathBezierSeed =
  seed_type :: pathType
  seed_origin :: "IPoint option"
  seed_end :: "IPoint option"
  seed_controls :: "controls_value option"

text \<open>The private interface \<open>IArcSpan\<close>.\<close>

record IArcSpan =
  span_origin :: "IPoint option"
  span_startAngle :: real
  span_endAngle :: real
  span_size :: real

text \<open>JavaScript array indexing: an index past the end reads \<open>undefined\<close>.\<close>

fun js_index :: "'a list \<Rightarrow> nat \<Rightarrow> 'a option" where
  "js_index [] n = None"
| "js_index (x # xs) 0 = Some x"
| "js_index (x # xs) (Suc n) = js_index xs n"

section \<open>The geometry utilities the constructors call\<close>

text \<open>
  The functions of the namespaces \<open>point\<close>, \<open>angle\<close>, \<open>measure\<close> and \<open>path\<close> are not part
  of the source file. The constructors take them as a parameter; each theorem names the
  part of their contract (spec, section 6) that it relies on. An argument that the
  constructors can pass as \<open>undefined\<close> has an option type. \<open>point.fromArc\<close> is typed as
  returning the pair \<open>[startPoint, endPoint]\<close>. Every utility is a total function here:
  an exception raised inside a utility is outside this development.
\<close>

record geometry_utilities =
  point_average :: "IPoint \<Rightarrow> IPoint \<Rightarrow> IPoint"
  point_middle :: "IPathLine \<Rightarrow> IPoint"
  point_add :: "IPoint \<Rightarrow> IPoint \<Rightarrow> IPoint"
  point_fromPolar :: "real \<Rightarrow> real \<Rightarrow> IPoint"
  point_clone :: "IPoint \<Rightarrow> IPoint"
  point_fromArc :: "IPathArc \<Rightarrow> IPoint \<times> IPoint"
  point_fromSlopeIntersection :: "IPathLine \<Rightarrow> IPathLine \<Rightarrow> IPoint option"
  angle_ofPointInDegrees :: "IPoint option \<Rightarrow> IPoint \<Rightarrow> real"
  angle_ofLineInDegrees :: "IPathLine \<Rightarrow> real"
  angle_toRadians :: "real \<Rightarrow> real"
  measure_pointDistance :: "IPoint option \<Rightarrow> IPoint \<Rightarrow> real"
  measure_isBetweenArcAngles :: "real \<Rightarrow> IPathArc \<Rightarrow> bool \<Rightarrow> bool"
  path_intersection :: "IPathCircle \<Rightarrow> IPathCircle \<Rightarrow> IPoint list option"
  path_rotate :: "IPathLine \<Rightarrow> real \<Rightarrow> IPoint \<Rightarrow> IPathLine"
  path_move :: "IPathLine \<Rightarrow> IPoint \<Rightarrow> IPathLine"

section \<open>Class \<open>Line\<close>\<close>

definition Line :: "IPoint \<Rightarrow> IPoint \<Rightarrow> IPathLine" where
  "Line origin_arg end_arg =
     \<lparr>line_type = pathType_Line, line_origin = origin_arg, line_end = end_arg\<rparr>"

section \<open>Class \<open>Circle\<close>\<close>

text \<open>The three declared overloads of the constructor.\<close>

datatype circle_args =
    Circle_origin_radius IPoint real
  | Circle_2points IPoint IPoint
  | Circle_3points IPoint IPoint IPoint

text \<open>
  The loop \<open>for (var i = 2; i--;)\<close> runs its body with \<open>i = 1\<close> and then \<open>i = 0\<close>, so
  the perpendicular of \<open>lines[1]\<close> is pushed first.
\<close>

definition Circle_perpendiculars :: "geometry_utilities \<Rightarrow> IPathLine list \<Rightarrow> IPathLine list" where
  "Circle_perpendiculars U lines =
     foldl (\<lambda>perpendiculars i.
              let midpoint = point_middle U (lines ! i)
              in perpendiculars @ [path_rotate U (lines ! i) 90 midpoint])
           [] [1, 0]"

text \<open>
  The constructor body, run on an object \<open>this\<close>: \<open>new Circle(...)\<close> runs it on an empty
  object, \<open>Circle.apply(this, args)\<close> and \<open>Circle.call(this, ...)\<close> run it on the arc under
  construction. When the slope intersection of the three-point case is none, the source
  goes on to call \<open>measure.pointDistance\<close> on the undefined origin; the utilities being
  total functions here, a failure of that call is not represented, and no theorem below
  is about a three-point circle without an origin.
\<close>

fun Circle_body ::
  "geometry_utilities \<Rightarrow> circle_args \<Rightarrow> 'a IPathCircle_scheme \<Rightarrow> 'a IPathCircle_scheme" where
  "Circle_body U (Circle_origin_radius a0 a1) this =
     this\<lparr>ptype := Some pathType_Circle, origin := Some a0, radius := Some a1\<rparr>"
| "Circle_body U (Circle_2points a0 a1) this =
     (let this = this\<lparr>ptype := Some pathType_Circle\<rparr>;
          this = this\<lparr>origin := Some (point_average U a0 a1)\<rparr>
      in this\<lparr>radius := Some (measure_pointDistance U (origin this) a0)\<rparr>)"
| "Circle_body U (Circle_3points a0 a1 a2) this =
     (let this = this\<lparr>ptype := Some pathType_Circle\<rparr>;
          lines = [Line a0 a1, Line a1 a2];
          perpendiculars = Circle_perpendiculars U lines;
          this = this\<lparr>origin :=
                   point_fromSlopeIntersection U (perpendiculars ! 0) (perpendiculars ! 1)\<rparr>
      in this\<lparr>radius := Some (measure_pointDistance U (origin this) a0)\<rparr>)"

definition empty_circle :: IPathCircle where
  "empty_circle = \<lparr>ptype = None, origin = None, radius = None\<rparr>"

definition Circle :: "geometry_utilities \<Rightarrow> circle_args \<Rightarrow> IPathCircle" where
  "Circle U args = Circle_body U args empty_circle"

section \<open>Class \<open>Arc\<close>\<close>

text \<open>
  The four declared overloads. The optional \<open>clockwise\<close> of the two-point form is
  \<open>None\<close> when the caller leaves it out; \<open>undefined\<close> is falsy.
\<close>

datatype arc_args =
    Arc_origin_radius_angles IPoint real real real
  | Arc_svg IPoint IPoint real bool bool
  | Arc_2points IPoint IPoint "bool option"
  | Arc_3points IPoint IPoint IPoint

definition truthy :: "bool option \<Rightarrow> bool" where
  "truthy b = (case b of None \<Rightarrow> False | Some v \<Rightarrow> v)"

definition empty_arc :: IPathArc where
  "empty_arc = \<lparr>ptype = None, origin = None, radius = None, startAngle = None, endAngle = None\<rparr>"

text \<open>Lines 87 and 88: the two angles of a candidate centre, before the adjustment.\<close>

definition Arc_candidateAngles ::
  "geometry_utilities \<Rightarrow> IPoint \<Rightarrow> IPoint \<Rightarrow> bool \<Rightarrow> IPoint option \<Rightarrow> real \<times> real" where
  "Arc_candidateAngles U a0 a1 clockwise origin_i =
     (angle_ofPointInDegrees U origin_i (if clockwise then a1 else a0),
      angle_ofPointInDegrees U origin_i (if clockwise then a0 else a1))"

text \<open>Lines 86 to 99: the span of one candidate centre.\<close>

definition Arc_span ::
  "geometry_utilities \<Rightarrow> IPoint \<Rightarrow> IPoint \<Rightarrow> bool \<Rightarrow> IPoint option \<Rightarrow> IArcSpan" where
  "Arc_span U a0 a1 clockwise origin_i =
     (let (startAngle_i, endAngle_i) = Arc_candidateAngles U a0 a1 clockwise origin_i;
          endAngle_i = (if endAngle_i < startAngle_i then endAngle_i + 360 else endAngle_i)
      in \<lparr>span_origin = origin_i, span_startAngle = startAngle_i,
          span_endAngle = endAngle_i, span_size = endAngle_i - startAngle_i\<rparr>)"

text \<open>Lines 101 to 106: insert sorted by size ascending.\<close>

definition Arc_insert :: "IArcSpan list \<Rightarrow> IArcSpan \<Rightarrow> IArcSpan list" where
  "Arc_insert spans span_i =
     (if length spans = 0 \<or> span_size span_i > span_size (spans ! 0)
      then spans @ [span_i] else span_i # spans)"

text \<open>The loop of lines 85 to 107, with \<open>i = 1\<close> and then \<open>i = 0\<close>.\<close>

definition Arc_spans ::
  "geometry_utilities \<Rightarrow> IPoint \<Rightarrow> IPoint \<Rightarrow> bool \<Rightarrow> IPoint list \<Rightarrow> IArcSpan list" where
  "Arc_spans U a0 a1 clockwise intersectionPoints =
     foldl (\<lambda>spans i. Arc_insert spans
                        (Arc_span U a0 a1 clockwise (js_index intersectionPoints i)))
           [] [1, 0]"

text \<open>Lines 72 to 75: the two potential origins, from the two end points and the radius.\<close>

definition Arc_origins ::
  "geometry_utilities \<Rightarrow> IPoint \<Rightarrow> IPoint \<Rightarrow> real \<Rightarrow> IPoint list option" where
  "Arc_origins U a0 a1 a2 =
     path_intersection U (Circle U (Circle_origin_radius a0 a2))
                         (Circle U (Circle_origin_radius a1 a2))"

fun Arc :: "geometry_utilities \<Rightarrow> arc_args \<Rightarrow> IPathArc" where
  "Arc U (Arc_svg a0 a1 a2 largeArc clockwise) =
     (let this = empty_arc\<lparr>radius := Some a2\<rparr>;
          origins = Arc_origins U a0 a1 a2;
          this = (case origins of
                    None \<Rightarrow> this
                  | Some intersectionPoints \<Rightarrow>
                      let spans = Arc_spans U a0 a1 clockwise intersectionPoints;
                          index = (if largeArc then 1 else 0);
                          span_sel = spans ! index
                      in this\<lparr>origin := span_origin span_sel,
                              startAngle := Some (span_startAngle span_sel),
                              endAngle := Some (span_endAngle span_sel)\<rparr>)
      in this\<lparr>ptype := Some pathType_Arc\<rparr>)"
| "Arc U (Arc_origin_radius_angles a0 a1 a2 a3) =
     (let this = empty_arc\<lparr>origin := Some a0, radius := Some a1,
                            startAngle := Some a2, endAngle := Some a3\<rparr>
      in this\<lparr>ptype := Some pathType_Arc\<rparr>)"
| "Arc U (Arc_3points a0 a1 a2) =
     (let this = Circle_body U (Circle_3points a0 a1 a2) empty_arc;
          angles = map (angle_ofPointInDegrees U (origin this)) [a0, a1, a2];
          this = this\<lparr>startAngle := Some (angles ! 0), endAngle := Some (angles ! 2)\<rparr>;
          this = (if \<not> measure_isBetweenArcAngles U (angles ! 1) this False
                  then this\<lparr>startAngle := Some (angles ! 2), endAngle := Some (angles ! 0)\<rparr>
                  else this)
      in this\<lparr>ptype := Some pathType_Arc\<rparr>)"
| "Arc U (Arc_2points a0 a1 a2) =
     (let clockwise = truthy a2;
          this = Circle_body U (Circle_2points a0 a1) empty_arc;
          this = this\<lparr>startAngle :=
                   Some (angle_ofPointInDegrees U (origin this) (if clockwise then a1 else a0))\<rparr>;
          this = this\<lparr>endAngle :=
                   Some (angle_ofPointInDegrees U (origin this) (if clockwise then a0 else a1))\<rparr>
      in this\<lparr>ptype := Some pathType_Arc\<rparr>)"

section \<open>Classes \<open>Chord\<close> and \<open>Parallel\<close>\<close>

definition Chord :: "geometry_utilities \<Rightarrow> IPathArc \<Rightarrow> IPathLine" where
  "Chord U arc =
     (let arcPoints = point_fromArc U arc
      in \<lparr>line_type = pathType_Line, line_origin = fst arcPoints, line_end = snd arcPoints\<rparr>)"

text \<open>The object \<open>this\<close> of \<open>Parallel\<close> after lines 290 to 292.\<close>

definition Parallel_this :: "geometry_utilities \<Rightarrow> IPathLine \<Rightarrow> IPathLine" where
  "Parallel_this U toLine =
     \<lparr>line_type = pathType_Line,
      line_origin = point_clone U (line_origin toLine),
      line_end = point_clone U (line_end toLine)\<rparr>"

text \<open>The local function \<open>getNewOrigin\<close>: the pair of \<open>origin\<close> and \<open>nearness\<close>.\<close>

definition Parallel_getNewOrigin ::
  "geometry_utilities \<Rightarrow> IPathLine \<Rightarrow> real \<Rightarrow> IPoint \<Rightarrow> real \<Rightarrow> IPoint \<times> real" where
  "Parallel_getNewOrigin U toLine distance nearPoint offsetAngle =
     (let angleOfLine = angle_ofLineInDegrees U (Parallel_this U toLine);
          origin_new = point_add U (line_origin toLine)
            (point_fromPolar U (angle_toRadians U (angleOfLine + offsetAngle)) distance)
      in (origin_new, measure_pointDistance U (Some origin_new) nearPoint))"

text \<open>Lines 304 and 305: the local variable \<open>newOrigin\<close>.\<close>

definition Parallel_newOrigin ::
  "geometry_utilities \<Rightarrow> IPathLine \<Rightarrow> real \<Rightarrow> IPoint \<Rightarrow> IPoint" where
  "Parallel_newOrigin U toLine distance nearPoint =
     (let newOrigins = [Parallel_getNewOrigin U toLine distance nearPoint (- 90),
                        Parallel_getNewOrigin U toLine distance nearPoint 90]
      in if snd (newOrigins ! 0) < snd (newOrigins ! 1)
         then fst (newOrigins ! 0) else fst (newOrigins ! 1))"

text \<open>\<open>path.move\<close> changes \<open>this\<close> in place; the constructed object is what it leaves.\<close>

definition Parallel :: "geometry_utilities \<Rightarrow> IPathLine \<Rightarrow> real \<Rightarrow> IPoint \<Rightarrow> IPathLine" where
  "Parallel U toLine distance nearPoint =
     path_move U (Parallel_this U toLine) (Parallel_newOrigin U toLine distance nearPoint)"

section \<open>Class \<open>BezierSeed\<close>\<close>

datatype bezier_args =
    Bezier_points "IPoint list"
  | Bezier_quadratic IPoint IPoint IPoint
  | Bezier_controls IPoint "IPoint list" IPoint
  | Bezier_cubic IPoint IPoint IPoint IPoint

definition empty_seed :: IPathBezierSeed where
  "empty_seed = \<lparr>seed_type = pathType_BezierSeed, seed_origin = None, seed_end = None,
                 seed_controls = None\<rparr>"

text \<open>
  In the case of three arguments the test \<open>Array.isArray(args[1])\<close> holds for an array of
  control points and for a single control point alike, a point being the array
  \<open>[x, y]\<close>: both overloads store \<open>args[1]\<close> itself, and the branch that would wrap a
  single point into an array is not reached with the declared argument types.
\<close>

fun BezierSeed :: "bezier_args \<Rightarrow> IPathBezierSeed" where
  "BezierSeed (Bezier_points points) =
     (let this = empty_seed\<lparr>seed_origin := js_index points 0\<rparr>
      in if length points = 3
         then this\<lparr>seed_controls := Some (PointArray [points ! 1]),
                   seed_end := js_index points 2\<rparr>
         else if length points = 4
         then this\<lparr>seed_controls := Some (PointArray [points ! 1, points ! 2]),
                   seed_end := js_index points 3\<rparr>
         else this\<lparr>seed_end := js_index points 1\<rparr>)"
| "BezierSeed (Bezier_controls a0 a1 a2) =
     empty_seed\<lparr>seed_controls := Some (PointArray a1), seed_end := Some a2\<rparr>"
| "BezierSeed (Bezier_quadratic a0 a1 a2) =
     empty_seed\<lparr>seed_controls := Some (NumberArray a1), seed_end := Some a2\<rparr>"
| "BezierSeed (Bezier_cubic a0 a1 a2 a3) =
     empty_seed\<lparr>seed_controls := Some (PointArray [a1, a2]), seed_end := Some a3\<rparr>"

section \<open>Contracts of the geometry utilities\<close>

text \<open>
  Modelled from the spec: the contracts of section 6 for the utilities that are not part
  of the source file, in exact arithmetic. A theorem assumes only the contracts it uses.
\<close>

definition euclid :: "IPoint \<Rightarrow> IPoint \<Rightarrow> real" where
  "euclid p q = sqrt ((fst q - fst p)\<^sup>2 + (snd q - snd p)\<^sup>2)"

text \<open>Modelled from the spec: \<open>measurePointDistance(p1,p2)\<close> is the Euclidean distance.\<close>

definition distance_contract :: "geometry_utilities \<Rightarrow> bool" where
  "distance_contract U = (\<forall>p q. measure_pointDistance U (Some p) q = euclid p q)"

text \<open>
  Modelled from the spec: \<open>angleOfPointInDegrees(origin, point)\<close> is the angle of
  \<open>point\<close> as seen from \<open>origin\<close>, in degrees in \<open>[0,360)\<close>.
\<close>

definition is_angle_of :: "real \<Rightarrow> IPoint \<Rightarrow> IPoint \<Rightarrow> bool" where
  "is_angle_of t p q =
     (0 \<le> t \<and> t < 360 \<and>
      fst q - fst p = euclid p q * cos (t * pi / 180) \<and>
      snd q - snd p = euclid p q * sin (t * pi / 180))"

definition angle_contract :: "geometry_utilities \<Rightarrow> bool" where
  "angle_contract U = (\<forall>p q. is_angle_of (angle_ofPointInDegrees U (Some p) q) p q)"

text \<open>
  Modelled from the spec: \<open>pathIntersection\<close> of two circles is the set of their
  intersection points, or none. The contract is stated for two circles that have
  exactly two common points.
\<close>

definition on_circle :: "IPoint \<Rightarrow> IPoint \<Rightarrow> real \<Rightarrow> bool" where
  "on_circle p c r = (0 \<le> r \<and> (fst p - fst c)\<^sup>2 + (snd p - snd c)\<^sup>2 = r\<^sup>2)"

definition two_centers :: "IPoint \<Rightarrow> IPoint \<Rightarrow> real \<Rightarrow> IPoint \<Rightarrow> IPoint \<Rightarrow> bool" where
  "two_centers a b r c0 c1 =
     (c0 \<noteq> c1 \<and> (\<forall>p. (on_circle p a r \<and> on_circle p b r) = (p = c0 \<or> p = c1)))"

text \<open>Modelled from the spec: \<open>pointMiddle(line)\<close> is the midpoint of a line's endpoints.\<close>

definition midpoint_of :: "IPathLine \<Rightarrow> IPoint" where
  "midpoint_of l = ((fst (line_origin l) + fst (line_end l)) / 2,
                    (snd (line_origin l) + snd (line_end l)) / 2)"

definition middle_contract :: "geometry_utilities \<Rightarrow> bool" where
  "middle_contract U = (\<forall>l. point_middle U l = midpoint_of l)"

text \<open>
  Modelled from the spec: \<open>pathRotate(path, angleDeg, aroundPoint)\<close> returns the path
  rotated about a pivot; the constructors only rotate lines by 90 degrees.
\<close>

definition quarter_turn :: "IPoint \<Rightarrow> IPoint \<Rightarrow> IPoint" where
  "quarter_turn pivot p = (fst pivot - (snd p - snd pivot), snd pivot + (fst p - fst pivot))"

definition rotate90_contract :: "geometry_utilities \<Rightarrow> bool" where
  "rotate90_contract U =
     (\<forall>l pivot. path_rotate U l 90 pivot =
        l\<lparr>line_origin := quarter_turn pivot (line_origin l),
          line_end := quarter_turn pivot (line_end l)\<rparr>)"

text \<open>
  Modelled from the spec: \<open>pointFromSlopeIntersection(line1, line2)\<close> is the intersection
  point of the two lines' infinite extensions, or none if they are parallel.
\<close>

definition cross :: "IPoint \<Rightarrow> IPoint \<Rightarrow> real" where
  "cross v w = fst v * snd w - snd v * fst w"

definition direction :: "IPathLine \<Rightarrow> IPoint" where
  "direction l = (fst (line_end l) - fst (line_origin l), snd (line_end l) - snd (line_origin l))"

definition on_extension :: "IPoint \<Rightarrow> IPathLine \<Rightarrow> bool" where
  "on_extension p l =
     (cross (fst p - fst (line_origin l), snd p - snd (line_origin l)) (direction l) = 0)"

definition slope_intersection_contract :: "geometry_utilities \<Rightarrow> bool" where
  "slope_intersection_contract U =
     (\<forall>l1 l2. if cross (direction l1) (direction l2) = 0
              then point_fromSlopeIntersection U l1 l2 = None
              else (\<exists>p. point_fromSlopeIntersection U l1 l2 = Some p \<and>
                        on_extension p l1 \<and> on_extension p l2))"

text \<open>
  Modelled from the spec: \<open>pathMove(path, newOrigin)\<close> relocates a path's reference
  point, preserving shape, and never changes the kind of the path.
\<close>

definition move_contract :: "geometry_utilities \<Rightarrow> bool" where
  "move_contract U =
     (\<forall>l p. path_move U l p =
        \<lparr>line_type = line_type l, line_origin = p,
         line_end = (fst (line_end l) + (fst p - fst (line_origin l)),
                     snd (line_end l) + (snd p - snd (line_origin l)))\<rparr>)"

section \<open>An exact instance of the geometry utilities\<close>

text \<open>
  Modelled from the spec: one instance of the utilities of section 6 in exact arithmetic,
  used to run the constructors on concrete inputs. What a utility does with an
  \<open>undefined\<close> origin is not specified; this instance reads it as the point \<open>(0, 0)\<close>.
\<close>

definition exact_angle :: "IPoint \<Rightarrow> real" where
  "exact_angle v =
     (if fst v > 0 then (if snd v \<ge> 0 then arctan (snd v / fst v)
                         else arctan (snd v / fst v) + 2 * pi)
      else if fst v < 0 then arctan (snd v / fst v) + pi
      else if snd v > 0 then pi / 2
      else if snd v < 0 then 3 * pi / 2
      else 0) * 180 / pi"

definition or_zero :: "IPoint option \<Rightarrow> IPoint" where
  "or_zero p = (case p of None \<Rightarrow> (0, 0) | Some q \<Rightarrow> q)"

definition norm360 :: "real \<Rightarrow> real" where
  "norm360 x = x - 360 * of_int \<lfloor>x / 360\<rfloor>"

definition exact_isBetweenArcAngles :: "real \<Rightarrow> IPathArc \<Rightarrow> bool \<Rightarrow> bool" where
  "exact_isBetweenArcAngles t arc includeEndpoints =
     (case (startAngle arc, endAngle arc) of
        (Some s, Some e) \<Rightarrow>
          (if includeEndpoints then norm360 (t - s) \<le> norm360 (e - s)
           else 0 < norm360 (t - s) \<and> norm360 (t - s) < norm360 (e - s))
      | _ \<Rightarrow> False)"

definition exact_intersection :: "IPathCircle \<Rightarrow> IPathCircle \<Rightarrow> IPoint list option" where
  "exact_intersection c1 c2 =
     (case (origin c1, radius c1, origin c2, radius c2) of
        (Some o1, Some r1, Some o2, Some r2) \<Rightarrow>
          (let v = (fst o2 - fst o1, snd o2 - snd o1);
               d2 = (fst v)\<^sup>2 + (snd v)\<^sup>2
           in if d2 = 0 then None
              else let a = (r1\<^sup>2 - r2\<^sup>2 + d2) / (2 * d2);
                       h2 = r1\<^sup>2 / d2 - a\<^sup>2;
                       m = (fst o1 + a * fst v, snd o1 + a * snd v)
                   in if h2 < 0 then None
                      else if h2 = 0 then Some [m]
                      else Some [(fst m - sqrt h2 * snd v, snd m + sqrt h2 * fst v),
                                 (fst m + sqrt h2 * snd v, snd m - sqrt h2 * fst v)])
      | _ \<Rightarrow> None)"

definition exact_fromSlopeIntersection :: "IPathLine \<Rightarrow> IPathLine \<Rightarrow> IPoint option" where
  "exact_fromSlopeIntersection l1 l2 =
     (let d1 = direction l1; d2 = direction l2; c = cross d1 d2
      in if c = 0 then None
         else let t = cross (fst (line_origin l2) - fst (line_origin l1),
                             snd (line_origin l2) - snd (line_origin l1)) d2 / c
              in Some (fst (line_origin l1) + t * fst d1, snd (line_origin l1) + t * snd d1))"

definition exact_rotate :: "IPathLine \<Rightarrow> real \<Rightarrow> IPoint \<Rightarrow> IPathLine" where
  "exact_rotate l angleInDegrees pivot =
     (let c = cos (angleInDegrees * pi / 180); s = sin (angleInDegrees * pi / 180);
          turn = (\<lambda>p. (fst pivot + (c * (fst p - fst pivot) - s * (snd p - snd pivot)),
                       snd pivot + (s * (fst p - fst pivot) + c * (snd p - snd pivot))))
      in l\<lparr>line_origin := turn (line_origin l), line_end := turn (line_end l)\<rparr>)"

definition exact_fromArc :: "IPathArc \<Rightarrow> IPoint \<times> IPoint" where
  "exact_fromArc arc =
     (let c = or_zero (origin arc);
          r = (case radius arc of None \<Rightarrow> 0 | Some x \<Rightarrow> x);
          pointAt = (\<lambda>t. case t of None \<Rightarrow> c
                         | Some d \<Rightarrow> (fst c + r * cos (d * pi / 180),
                                     snd c + r * sin (d * pi / 180)))
      in (pointAt (startAngle arc), pointAt (endAngle arc)))"

definition exact_utilities :: geometry_utilities where
  "exact_utilities =
     \<lparr>point_average = (\<lambda>p q. ((fst p + fst q) / 2, (snd p + snd q) / 2)),
      point_middle = midpoint_of,
      point_add = (\<lambda>p v. (fst p + fst v, snd p + snd v)),
      point_fromPolar = (\<lambda>angleInRadians r. (r * cos angleInRadians, r * sin angleInRadians)),
      point_clone = (\<lambda>p. p),
      point_fromArc = exact_fromArc,
      point_fromSlopeIntersection = exact_fromSlopeIntersection,
      angle_ofPointInDegrees = (\<lambda>p q. exact_angle (fst q - fst (or_zero p), snd q - snd (or_zero p))),
      angle_ofLineInDegrees = (\<lambda>l. exact_angle (direction l)),
      angle_toRadians = (\<lambda>d. d * pi / 180),
      measure_pointDistance = (\<lambda>p q. euclid (or_zero p) q),
      measure_isBetweenArcAngles = exact_isBetweenArcAngles,
      path_intersection = exact_intersection,
      path_rotate = exact_rotate,
      path_move = (\<lambda>l p.
         \<lparr>line_type = line_type l, line_origin = p,
          line_end = (fst (line_end l) + (fst p - fst (line_origin l)),
                      snd (line_end l) + (snd p - snd (line_origin l)))\<rparr>)\<rparr>"

section \<open>Notions the claims are stated with\<close>

text \<open>Three points on one line: the chords \<open>AB\<close> and \<open>BC\<close> are parallel.\<close>

definition collinear3 :: "IPoint \<Rightarrow> IPoint \<Rightarrow> IPoint \<Rightarrow> bool" where
  "collinear3 a b c =
     (cross (fst b - fst a, snd b - snd a) (fst c - fst b, snd c - snd b) = 0)"

text \<open>
  An angle \<open>t\<close> lies within the span of an arc from \<open>s\<close> to \<open>e\<close> when, going counter-clockwise
  from \<open>s\<close>, \<open>t\<close> is reached no later than \<open>e\<close>; strictly within leaves out both ends.
\<close>

definition within_span :: "real \<Rightarrow> real \<Rightarrow> real \<Rightarrow> bool" where
  "within_span s e t = (norm360 (t - s) \<le> norm360 (e - s))"

definition strictly_within_span :: "real \<Rightarrow> real \<Rightarrow> real \<Rightarrow> bool" where
  "strictly_within_span s e t = (0 < norm360 (t - s) \<and> norm360 (t - s) < norm360 (e - s))"

text \<open>
  Modelled from the spec: \<open>measureIsBetweenArcAngles(angleDeg, arc, includeEndpoints)\<close> is
  true if \<open>angleDeg\<close> lies within the arc's angular span, the traversal direction being
  defined by the arc's own start and end. The last argument decides the two end points
  only, so the contract leaves them open: true strictly within the span, false outside it.
\<close>

definition between_contract :: "geometry_utilities \<Rightarrow> bool" where
  "between_contract U =
     (\<forall>t arc s e includeEndpoints.
        startAngle arc = Some s \<and> endAngle arc = Some e \<longrightarrow>
          (strictly_within_span s e t \<longrightarrow> measure_isBetweenArcAngles U t arc includeEndpoints) \<and>
          (measure_isBetweenArcAngles U t arc includeEndpoints \<longrightarrow> within_span s e t))"

section \<open>Facts about the utilities and the exact instance\<close>

lemma js_index_nth: "n < length xs \<Longrightarrow> js_index xs n = Some (xs ! n)"
  by (induction xs n rule: js_index.induct) auto

lemma move_contract_type:
  assumes "move_contract U"
  shows "line_type (path_move U l p) = line_type l"
proof -
  from assms have "path_move U l p =
      \<lparr>line_type = line_type l, line_origin = p,
       line_end = (fst (line_end l) + (fst p - fst (line_origin l)),
                   snd (line_end l) + (snd p - snd (line_origin l)))\<rparr>"
    unfolding move_contract_def by blast
  then show ?thesis by simp
qed

lemma exact_move_contract: "move_contract exact_utilities"
  by (simp add: move_contract_def exact_utilities_def)

section \<open>BezierSeed\<close>

text \<open>
  Claim C9. A \<open>BezierSeed\<close> built from a point array whose length is neither 3 nor 4 has
  \<open>origin = points[0]\<close> and \<open>end = points[1]\<close> (JavaScript indexing, so \<open>undefined\<close> past
  the end of the array, and the two first points from length 2 on), and its \<open>controls\<close>
  field is left undefined: it is not the empty sequence.
\<close>

theorem BezierSeed_points_other_lengths:
  assumes "length points \<noteq> 3" and "length points \<noteq> 4"
  shows "seed_origin (BezierSeed (Bezier_points points)) = js_index points 0 \<and>
         seed_end (BezierSeed (Bezier_points points)) = js_index points 1 \<and>
         seed_controls (BezierSeed (Bezier_points points)) = None \<and>
         seed_controls (BezierSeed (Bezier_points points)) \<noteq> Some (PointArray []) \<and>
         seed_type (BezierSeed (Bezier_points points)) = pathType_BezierSeed \<and>
         (2 \<le> length points \<longrightarrow>
            seed_origin (BezierSeed (Bezier_points points)) = Some (points ! 0) \<and>
            seed_end (BezierSeed (Bezier_points points)) = Some (points ! 1))"
proof -
  have "2 \<le> length points \<Longrightarrow> js_index points 0 = Some (points ! 0)"
    by (rule js_index_nth) linarith
  moreover have "2 \<le> length points \<Longrightarrow> js_index points 1 = Some (points ! 1)"
    by (rule js_index_nth) linarith
  ultimately show ?thesis
    using assms by (simp add: empty_seed_def)
qed

theorem BezierSeed_points_other_lengths_witness:
  "seed_origin (BezierSeed (Bezier_points [(0, 0), (1, 2)])) = Some (0, 0) \<and>
   seed_end (BezierSeed (Bezier_points [(0, 0), (1, 2)])) = Some (1, 2) \<and>
   seed_controls (BezierSeed (Bezier_points [(0, 0), (1, 2)])) = None \<and>
   seed_origin (BezierSeed (Bezier_points [(0, 0), (1, 2), (3, 4), (5, 6), (7, 8)])) = Some (0, 0) \<and>
   seed_end (BezierSeed (Bezier_points [(0, 0), (1, 2), (3, 4), (5, 6), (7, 8)])) = Some (1, 2) \<and>
   seed_controls (BezierSeed (Bezier_points [(0, 0), (1, 2), (3, 4), (5, 6), (7, 8)])) = None"
  using BezierSeed_points_other_lengths [of "[(0, 0), (1, 2)]"]
        BezierSeed_points_other_lengths [of "[(0, 0), (1, 2), (3, 4), (5, 6), (7, 8)]"]
  by simp

text \<open>
  Claim C7 says that the flat sequence \<open>[O, C1, C2, E]\<close>, the form \<open>(O, [C1, C2], E)\<close> and the
  form \<open>(O, C1, C2, E)\<close> give field-for-field identical seeds. The constructor assigns
  \<open>this.origin\<close> in the point-array case only: the two explicit forms, whose first
  parameter is documented as the origin point of the curve, leave \<open>origin\<close> undefined.
  They agree with the flat form on \<open>type\<close>, \<open>controls\<close> and \<open>end\<close>, and differ
  from it on \<open>origin\<close>.
\<close>

theorem BezierSeed_explicit_forms_leave_origin_unset:
  "seed_origin (BezierSeed (Bezier_points [og, c1, c2, en])) = Some og \<and>
   seed_origin (BezierSeed (Bezier_controls og [c1, c2] en)) = None \<and>
   seed_origin (BezierSeed (Bezier_cubic og c1 c2 en)) = None \<and>
   BezierSeed (Bezier_controls og [c1, c2] en) \<noteq> BezierSeed (Bezier_points [og, c1, c2, en]) \<and>
   BezierSeed (Bezier_cubic og c1 c2 en) \<noteq> BezierSeed (Bezier_points [og, c1, c2, en]) \<and>
   BezierSeed (Bezier_controls og [c1, c2] en) = BezierSeed (Bezier_cubic og c1 c2 en) \<and>
   BezierSeed (Bezier_points [og, c1, c2, en]) =
     (BezierSeed (Bezier_cubic og c1 c2 en))\<lparr>seed_origin := Some og\<rparr>"
  by (simp add: empty_seed_def eval_nat_numeral)

section \<open>Chord and Parallel\<close>

text \<open>
  Claim C10. Every \<open>Chord\<close> is constructed with the tag \<open>pathType.Line\<close>. Every
  \<open>Parallel\<close> is given the tag \<open>pathType.Line\<close> before anything else, and still carries
  it after the closing \<open>path.move\<close>, which by its contract keeps the kind of a path.
  The tagged union has the four kinds line, circle, arc and bezier seed, and no kind of
  its own for a chord or a parallel.
\<close>

theorem Chord_and_Parallel_are_tagged_Line:
  "line_type (Chord U arc) = pathType_Line \<and>
   line_type (Parallel_this U toLine) = pathType_Line \<and>
   (move_contract U \<longrightarrow> line_type (Parallel U toLine distance nearPoint) = pathType_Line) \<and>
   (\<forall>kind. kind \<in> {pathType_Line, pathType_Circle, pathType_Arc, pathType_BezierSeed})"
proof -
  have "kind \<in> {pathType_Line, pathType_Circle, pathType_Arc, pathType_BezierSeed}" for kind
    by (cases kind) simp_all
  then show ?thesis
    by (simp add: Chord_def Parallel_def Parallel_this_def move_contract_type Let_def)
qed

theorem Chord_and_Parallel_are_tagged_Line_witness:
  "line_type (Chord exact_utilities (Arc exact_utilities (Arc_origin_radius_angles (0, 0) 5 0 90)))
     = pathType_Line \<and>
   line_type (Parallel exact_utilities (Line (0, 0) (10, 0)) 2 (0, 5)) = pathType_Line"
  using Chord_and_Parallel_are_tagged_Line
          [of exact_utilities "Arc exact_utilities (Arc_origin_radius_angles (0, 0) 5 0 90)"
              "Line (0, 0) (10, 0)" 2 "(0, 5)"]
        exact_move_contract
  by simp

lemma move_contract_origin:
  assumes "move_contract U"
  shows "line_origin (path_move U l p) = p"
proof -
  from assms have "path_move U l p =
      \<lparr>line_type = line_type l, line_origin = p,
       line_end = (fst (line_end l) + (fst p - fst (line_origin l)),
                   snd (line_end l) + (snd p - snd (line_origin l)))\<rparr>"
    unfolding move_contract_def by blast
  then show ?thesis by simp
qed

lemma exact_angle_east: "0 < x \<Longrightarrow> exact_angle (x, 0) = 0"
  by (simp add: exact_angle_def)

lemma exact_getNewOrigin_horizontal:
  "0 < x \<Longrightarrow>
   Parallel_getNewOrigin exact_utilities (Line (0, 0) (x, 0)) d nearPoint (- 90) =
     ((0, - d), euclid (0, - d) nearPoint) \<and>
   Parallel_getNewOrigin exact_utilities (Line (0, 0) (x, 0)) d nearPoint 90 =
     ((0, d), euclid (0, d) nearPoint)"
  by (simp add: Parallel_getNewOrigin_def Parallel_this_def exact_utilities_def Line_def
      direction_def or_zero_def exact_angle_east Let_def)

text \<open>
  Claim C2 says that a tie between the two candidate origins goes to the first one, the
  one offset by -90 degrees. The selection is
  \<open>newOrigins[0].nearness < newOrigins[1].nearness ? newOrigins[0].origin : newOrigins[1].origin\<close>:
  on a tie the comparison is false and the second candidate, offset by +90 degrees, is
  taken. For the line from (0,0) to (10,0), distance 2 and near point (5,0), the
  candidates (0,-2) and (0,2) are equally near and the parallel starts at (0,2).
\<close>

theorem Parallel_tie_takes_second_candidate:
  "snd (Parallel_getNewOrigin exact_utilities (Line (0, 0) (10, 0)) 2 (5, 0) (- 90)) =
   snd (Parallel_getNewOrigin exact_utilities (Line (0, 0) (10, 0)) 2 (5, 0) 90) \<and>
   fst (Parallel_getNewOrigin exact_utilities (Line (0, 0) (10, 0)) 2 (5, 0) (- 90)) = (0, - 2) \<and>
   fst (Parallel_getNewOrigin exact_utilities (Line (0, 0) (10, 0)) 2 (5, 0) 90) = (0, 2) \<and>
   Parallel_newOrigin exact_utilities (Line (0, 0) (10, 0)) 2 (5, 0) = (0, 2) \<and>
   Parallel exact_utilities (Line (0, 0) (10, 0)) 2 (5, 0) =
     \<lparr>line_type = pathType_Line, line_origin = (0, 2), line_end = (10, 2)\<rparr>"
proof -
  have c: "Parallel_getNewOrigin exact_utilities (Line (0, 0) (10, 0)) 2 (5, 0) (- 90) =
             ((0, - 2), euclid (0, - 2) (5, 0)) \<and>
           Parallel_getNewOrigin exact_utilities (Line (0, 0) (10, 0)) 2 (5, 0) 90 =
             ((0, 2), euclid (0, 2) (5, 0))"
    using exact_getNewOrigin_horizontal [of 10 2 "(5, 0)"] by simp
  have n: "Parallel_newOrigin exact_utilities (Line (0, 0) (10, 0)) 2 (5, 0) = (0, 2)"
    by (simp add: Parallel_newOrigin_def c euclid_def)
  have "Parallel exact_utilities (Line (0, 0) (10, 0)) 2 (5, 0) =
     \<lparr>line_type = pathType_Line, line_origin = (0, 2), line_end = (10, 2)\<rparr>"
    by (simp add: Parallel_def n Parallel_this_def) (simp add: exact_utilities_def Line_def)
  with c n show ?thesis by (simp add: euclid_def)
qed

text \<open>
  Claim C2, amended. The two candidates are the origin of \<open>toLine\<close> moved by \<open>distance\<close>
  in the directions of the line's angle -90 and +90 degrees, and the nearness of each is
  its distance to \<open>nearPoint\<close>. The candidate strictly nearer to \<open>nearPoint\<close> is selected;
  when both are equally near, the second candidate (the +90 degrees offset) is selected.
  Under the contract of \<open>path.move\<close>, the selected candidate is the origin of the
  constructed parallel.
\<close>

theorem Parallel_selects_by_strict_less:
  "(let first = Parallel_getNewOrigin U toLine distance nearPoint (- 90);
        second = Parallel_getNewOrigin U toLine distance nearPoint 90;
        angleOfLine = angle_ofLineInDegrees U (Parallel_this U toLine);
        newOrigin = Parallel_newOrigin U toLine distance nearPoint
    in fst first = point_add U (line_origin toLine)
         (point_fromPolar U (angle_toRadians U (angleOfLine + (- 90))) distance) \<and>
       fst second = point_add U (line_origin toLine)
         (point_fromPolar U (angle_toRadians U (angleOfLine + 90)) distance) \<and>
       snd first = measure_pointDistance U (Some (fst first)) nearPoint \<and>
       snd second = measure_pointDistance U (Some (fst second)) nearPoint \<and>
       (snd first < snd second \<longrightarrow> newOrigin = fst first) \<and>
       (snd second < snd first \<longrightarrow> newOrigin = fst second) \<and>
       (snd first = snd second \<longrightarrow> newOrigin = fst second) \<and>
       (move_contract U \<longrightarrow> line_origin (Parallel U toLine distance nearPoint) = newOrigin))"
  by (simp add: Parallel_newOrigin_def Parallel_getNewOrigin_def Parallel_def Let_def
      move_contract_origin)

theorem Parallel_selects_by_strict_less_witness:
  "Parallel_newOrigin exact_utilities (Line (0, 0) (10, 0)) 2 (0, 5) = (0, 2) \<and>
   line_origin (Parallel exact_utilities (Line (0, 0) (10, 0)) 2 (0, 5)) = (0, 2) \<and>
   Parallel_newOrigin exact_utilities (Line (0, 0) (10, 0)) 2 (0, - 5) = (0, - 2) \<and>
   line_origin (Parallel exact_utilities (Line (0, 0) (10, 0)) 2 (0, - 5)) = (0, - 2)"
proof -
  have up1: "Parallel_getNewOrigin exact_utilities (Line (0, 0) (10, 0)) 2 (0, 5) (- 90) =
               ((0, - 2), 7)"
    and up2: "Parallel_getNewOrigin exact_utilities (Line (0, 0) (10, 0)) 2 (0, 5) 90 =
               ((0, 2), 3)"
    using exact_getNewOrigin_horizontal [of 10 2 "(0, 5)"]
    by (simp_all add: euclid_def real_sqrt_unique)
  have down1: "Parallel_getNewOrigin exact_utilities (Line (0, 0) (10, 0)) 2 (0, - 5) (- 90) =
                 ((0, - 2), 3)"
    and down2: "Parallel_getNewOrigin exact_utilities (Line (0, 0) (10, 0)) 2 (0, - 5) 90 =
                 ((0, 2), 7)"
    using exact_getNewOrigin_horizontal [of 10 2 "(0, - 5)"]
    by (simp_all add: euclid_def real_sqrt_unique)
  note up = Parallel_selects_by_strict_less
              [of exact_utilities "Line (0, 0) (10, 0)" 2 "(0, 5)", unfolded Let_def up1 up2]
  note down = Parallel_selects_by_strict_less
              [of exact_utilities "Line (0, 0) (10, 0)" 2 "(0, - 5)", unfolded Let_def down1 down2]
  from up exact_move_contract
  have "Parallel_newOrigin exact_utilities (Line (0, 0) (10, 0)) 2 (0, 5) = (0, 2) \<and>
        line_origin (Parallel exact_utilities (Line (0, 0) (10, 0)) 2 (0, 5)) = (0, 2)"
    by simp
  moreover from down exact_move_contract
  have "Parallel_newOrigin exact_utilities (Line (0, 0) (10, 0)) 2 (0, - 5) = (0, - 2) \<and>
        line_origin (Parallel exact_utilities (Line (0, 0) (10, 0)) 2 (0, - 5)) = (0, - 2)"
    by simp
  ultimately show ?thesis by simp
qed

section \<open>Unfolding the constructors\<close>

declare Arc.simps [simp del]
declare Circle_body.simps [simp del]

lemma Arc_spans_unfold:
  "Arc_spans U a b clockwise pts =
     (let first = Arc_span U a b clockwise (js_index pts 1);
          second = Arc_span U a b clockwise (js_index pts 0)
      in if span_size second > span_size first then [first, second] else [second, first])"
  by (simp add: Arc_spans_def Arc_insert_def Let_def)

lemma Arc_svg_fields:
  "Arc_origins U a b r = Some pts \<Longrightarrow>
   Arc U (Arc_svg a b r largeArc clockwise) =
     (let sel = Arc_spans U a b clockwise pts ! (if largeArc then 1 else 0)
      in \<lparr>ptype = Some pathType_Arc, origin = span_origin sel, radius = Some r,
          startAngle = Some (span_startAngle sel), endAngle = Some (span_endAngle sel)\<rparr>)"
  by (simp add: Arc.simps empty_arc_def Let_def)



lemma Circle_perpendiculars_unfold:
  "Circle_perpendiculars U [l0, l1] =
     [path_rotate U l1 90 (point_middle U l1), path_rotate U l0 90 (point_middle U l0)]"
  by (simp add: Circle_perpendiculars_def Let_def)

lemma rotate90_direction:
  assumes "rotate90_contract U"
  shows "direction (path_rotate U l 90 pivot) = (- snd (direction l), fst (direction l))"
proof -
  from assms have "path_rotate U l 90 pivot =
      l\<lparr>line_origin := quarter_turn pivot (line_origin l),
        line_end := quarter_turn pivot (line_end l)\<rparr>"
    unfolding rotate90_contract_def by blast
  then show ?thesis by (simp add: direction_def quarter_turn_def)
qed

lemma Circle_3points_origin:
  "origin (Circle_body U (Circle_3points a b c) this) =
     point_fromSlopeIntersection U
       (path_rotate U (Line b c) 90 (point_middle U (Line b c)))
       (path_rotate U (Line a b) 90 (point_middle U (Line a b)))"
  by (simp add: Circle_body.simps Circle_perpendiculars_unfold Let_def)

lemma perpendiculars_cross:
  assumes "rotate90_contract U"
  shows "cross (direction (path_rotate U (Line b c) 90 p)) (direction (path_rotate U (Line a b) 90 q))
           = - cross (fst b - fst a, snd b - snd a) (fst c - fst b, snd c - snd b)"
proof -
  have "direction (Line b c) = (fst c - fst b, snd c - snd b)"
    and "direction (Line a b) = (fst b - fst a, snd b - snd a)"
    by (simp_all add: direction_def Line_def)
  then show ?thesis
    by (simp add: rotate90_direction [OF assms] cross_def algebra_simps)
qed

lemma exact_rotate90_contract: "rotate90_contract exact_utilities"
  by (simp add: rotate90_contract_def exact_utilities_def exact_rotate_def quarter_turn_def Let_def)

lemma exact_middle_contract: "middle_contract exact_utilities"
  by (simp add: middle_contract_def exact_utilities_def)

lemma exact_distance_contract: "distance_contract exact_utilities"
  by (simp add: distance_contract_def exact_utilities_def or_zero_def)

lemma exact_slope_intersection_contract: "slope_intersection_contract exact_utilities"
  unfolding slope_intersection_contract_def
proof (intro allI)
  fix l1 l2
  define c where "c = cross (direction l1) (direction l2)"
  define t where "t = cross (fst (line_origin l2) - fst (line_origin l1),
                             snd (line_origin l2) - snd (line_origin l1)) (direction l2) / c"
  define p where "p = (fst (line_origin l1) + t * fst (direction l1),
                       snd (line_origin l1) + t * snd (direction l1))"
  have res: "point_fromSlopeIntersection exact_utilities l1 l2 = (if c = 0 then None else Some p)"
    by (simp add: exact_utilities_def exact_fromSlopeIntersection_def Let_def c_def t_def p_def)
  have on1: "on_extension p l1"
    by (simp add: p_def on_extension_def cross_def algebra_simps)
  have on2: "on_extension p l2" if "c \<noteq> 0"
  proof -
    have "t * c = cross (fst (line_origin l2) - fst (line_origin l1),
                         snd (line_origin l2) - snd (line_origin l1)) (direction l2)"
      using that by (simp add: t_def)
    then have "t * (fst (direction l1) * snd (direction l2) - snd (direction l1) * fst (direction l2))
               = (fst (line_origin l2) - fst (line_origin l1)) * snd (direction l2)
                 - (snd (line_origin l2) - snd (line_origin l1)) * fst (direction l2)"
      by (simp add: c_def cross_def)
    then show ?thesis
      by (simp add: p_def on_extension_def cross_def algebra_simps)
  qed
  show "if cross (direction l1) (direction l2) = 0
        then point_fromSlopeIntersection exact_utilities l1 l2 = None
        else (\<exists>p. point_fromSlopeIntersection exact_utilities l1 l2 = Some p \<and>
                  on_extension p l1 \<and> on_extension p l2)"
    using res on1 on2 by (simp add: c_def [symmetric])
qed

section \<open>Degenerate inputs\<close>




section \<open>Arc: circles that touch in one point\<close>

lemma exact_origins_tangent: "Arc_origins exact_utilities (1, 0) (- 1, 0) 1 = Some [(0, 0)]"
  by (simp add: Arc_origins_def exact_utilities_def exact_intersection_def Circle_def
      Circle_body.simps empty_circle_def Let_def power2_eq_square)

lemma Arc_span_origin: "span_origin (Arc_span U a b clockwise c) = c"
  by (simp add: Arc_span_def Let_def split: prod.split)

lemma Arc_spans_single_origins:
  "map span_origin (Arc_spans U a b clockwise [c]) = [None, Some c] \<or>
   map span_origin (Arc_spans U a b clockwise [c]) = [Some c, None]"
  by (simp add: Arc_spans_unfold Let_def Arc_span_origin)

text \<open>
  Claim C8 says that for the end points (1,0) and (-1,0) and radius 1 the only candidate
  centre is (0,0) and both values of \<open>largeArc\<close> return the same 180 degree arc. The loop
  \<open>for (var i = 2; i--;)\<close> always reads \<open>intersectionPoints[1]\<close> and
  \<open>intersectionPoints[0]\<close>. When the circles touch in a single point \<open>c\<close>, the first
  read is \<open>undefined\<close>, a span with an undefined origin is built from it, and the sorted
  pair holds that span next to the span of \<open>c\<close>: one value of \<open>largeArc\<close> returns an arc
  whose origin is \<open>c\<close>, the other an arc whose origin is undefined, whatever the
  utilities compute.
\<close>

theorem Arc_svg_single_center_gives_undefined_origin:
  assumes "Arc_origins U a b r = Some [c]"
  shows "(origin (Arc U (Arc_svg a b r False clockwise)) = Some c \<and>
          origin (Arc U (Arc_svg a b r True clockwise)) = None) \<or>
         (origin (Arc U (Arc_svg a b r False clockwise)) = None \<and>
          origin (Arc U (Arc_svg a b r True clockwise)) = Some c)"
proof -
  have len: "length (Arc_spans U a b clockwise [c]) = 2"
    by (simp add: Arc_spans_unfold Let_def)
  have o0: "origin (Arc U (Arc_svg a b r False clockwise)) =
              map span_origin (Arc_spans U a b clockwise [c]) ! 0"
    using len by (simp add: Arc_svg_fields [OF assms] Let_def)
  have o1: "origin (Arc U (Arc_svg a b r True clockwise)) =
              map span_origin (Arc_spans U a b clockwise [c]) ! 1"
    using len by (simp add: Arc_svg_fields [OF assms] Let_def)
  from Arc_spans_single_origins [of U a b clockwise c] show ?thesis
    unfolding o0 o1 by auto
qed

theorem Arc_svg_single_center_gives_undefined_origin_witness:
  "Arc_origins exact_utilities (1, 0) (- 1, 0) 1 = Some [(0, 0)] \<and>
   Arc exact_utilities (Arc_svg (1, 0) (- 1, 0) 1 False False) =
     \<lparr>ptype = Some pathType_Arc, origin = Some (0, 0), radius = Some 1,
      startAngle = Some 0, endAngle = Some 180\<rparr> \<and>
   Arc exact_utilities (Arc_svg (1, 0) (- 1, 0) 1 True False) =
     \<lparr>ptype = Some pathType_Arc, origin = None, radius = Some 1,
      startAngle = Some 0, endAngle = Some 180\<rparr>"
proof -
  have east: "exact_angle (1, 0) = 0" and west: "exact_angle (- 1, 0) = 180"
    by (simp_all add: exact_angle_def)
  have s0: "Arc_span exact_utilities (1, 0) (- 1, 0) False (Some (0, 0)) =
              \<lparr>span_origin = Some (0, 0), span_startAngle = 0, span_endAngle = 180,
               span_size = 180\<rparr>"
    by (simp add: Arc_span_def Arc_candidateAngles_def exact_utilities_def or_zero_def east west)
  have s1: "Arc_span exact_utilities (1, 0) (- 1, 0) False None =
              \<lparr>span_origin = None, span_startAngle = 0, span_endAngle = 180,
               span_size = 180\<rparr>"
    by (simp add: Arc_span_def Arc_candidateAngles_def exact_utilities_def or_zero_def east west)
  have spans: "Arc_spans exact_utilities (1, 0) (- 1, 0) False [(0, 0)] =
      [\<lparr>span_origin = Some (0, 0), span_startAngle = 0, span_endAngle = 180, span_size = 180\<rparr>,
       \<lparr>span_origin = None, span_startAngle = 0, span_endAngle = 180, span_size = 180\<rparr>]"
    by (simp add: Arc_spans_unfold s0 s1 Let_def)
  have "origin (Arc exact_utilities (Arc_svg (1, 0) (- 1, 0) 1 True False)) = None"
    using Arc_svg_single_center_gives_undefined_origin
            [OF exact_origins_tangent, of False]
    by (simp add: Arc_svg_fields [OF exact_origins_tangent] spans Let_def)
  then show ?thesis
    by (simp add: exact_origins_tangent Arc_svg_fields [OF exact_origins_tangent] spans Let_def)
qed

section \<open>Circle from three points: the circumcentre\<close>

lemma perpendicular_bisector:
  assumes "on_extension p
     ((Line u v)\<lparr>line_origin := quarter_turn (midpoint_of (Line u v)) u,
                 line_end := quarter_turn (midpoint_of (Line u v)) v\<rparr>)"
  shows "euclid p u = euclid p v"
proof -
  obtain px py ux uy vx vy where [simp]: "p = (px, py)" "u = (ux, uy)" "v = (vx, vy)"
    by (cases p, cases u, cases v) blast
  define h where "h =
     (px - ((ux + vx) / 2 - (uy - (uy + vy) / 2))) *
       (((uy + vy) / 2 + (vx - (ux + vx) / 2)) - ((uy + vy) / 2 + (ux - (ux + vx) / 2)))
     - (py - ((uy + vy) / 2 + (ux - (ux + vx) / 2))) *
       (((ux + vx) / 2 - (vy - (uy + vy) / 2)) - ((ux + vx) / 2 - (uy - (uy + vy) / 2)))"
  from assms have "h = 0"
    by (simp add: h_def on_extension_def cross_def direction_def quarter_turn_def
        midpoint_of_def Line_def)
  moreover have "(ux - px)\<^sup>2 + (uy - py)\<^sup>2 - ((vx - px)\<^sup>2 + (vy - py)\<^sup>2) = 2 * h"
    by (simp add: h_def power2_eq_square field_simps)
  ultimately have "(ux - px)\<^sup>2 + (uy - py)\<^sup>2 = (vx - px)\<^sup>2 + (vy - py)\<^sup>2"
    by simp
  then show ?thesis by (simp add: euclid_def)
qed

lemma rotate90_about_middle:
  assumes "middle_contract U" and "rotate90_contract U"
  shows "path_rotate U (Line u v) 90 (point_middle U (Line u v)) =
     (Line u v)\<lparr>line_origin := quarter_turn (midpoint_of (Line u v)) u,
                line_end := quarter_turn (midpoint_of (Line u v)) v\<rparr>"
proof -
  from assms(1) have m: "point_middle U (Line u v) = midpoint_of (Line u v)"
    unfolding middle_contract_def by blast
  from assms(2) have "path_rotate U (Line u v) 90 (midpoint_of (Line u v)) =
      (Line u v)\<lparr>line_origin := quarter_turn (midpoint_of (Line u v)) (line_origin (Line u v)),
                 line_end := quarter_turn (midpoint_of (Line u v)) (line_end (Line u v))\<rparr>"
    unfolding rotate90_contract_def by blast
  then show ?thesis unfolding m by (simp add: Line_def)
qed

lemma distance_contract_euclid:
  "distance_contract U \<Longrightarrow> measure_pointDistance U (Some p) q = euclid p q"
  unfolding distance_contract_def by blast

lemma Circle_3points_circumcenter:
  assumes "middle_contract U" and "rotate90_contract U" and "slope_intersection_contract U"
    and "\<not> collinear3 a b c"
  shows "\<exists>p. origin (Circle_body U (Circle_3points a b c) this) = Some p \<and>
             euclid p a = euclid p b \<and> euclid p b = euclid p c"
proof -
  let ?p0 = "path_rotate U (Line b c) 90 (point_middle U (Line b c))"
  let ?p1 = "path_rotate U (Line a b) 90 (point_middle U (Line a b))"
  have "cross (direction ?p0) (direction ?p1) \<noteq> 0"
    using assms(4) by (simp add: perpendiculars_cross [OF assms(2)] collinear3_def)
  moreover from assms(3) have
    "if cross (direction ?p0) (direction ?p1) = 0
     then point_fromSlopeIntersection U ?p0 ?p1 = None
     else (\<exists>p. point_fromSlopeIntersection U ?p0 ?p1 = Some p \<and>
               on_extension p ?p0 \<and> on_extension p ?p1)"
    unfolding slope_intersection_contract_def by blast
  ultimately obtain p where p: "point_fromSlopeIntersection U ?p0 ?p1 = Some p"
    and on0: "on_extension p ?p0" and on1: "on_extension p ?p1"
    by auto
  have "euclid p b = euclid p c"
    using on0 unfolding rotate90_about_middle [OF assms(1,2)] by (rule perpendicular_bisector)
  moreover have "euclid p a = euclid p b"
    using on1 unfolding rotate90_about_middle [OF assms(1,2)] by (rule perpendicular_bisector)
  moreover have "origin (Circle_body U (Circle_3points a b c) this) = Some p"
    by (simp only: Circle_3points_origin p)
  ultimately show ?thesis by blast
qed

lemma Circle_3points_radius:
  "radius (Circle_body U (Circle_3points a b c) this) =
     Some (measure_pointDistance U (origin (Circle_body U (Circle_3points a b c) this)) a)"
  by (simp add: Circle_body.simps Let_def)

text \<open>
  Claim C5. For three points that are not collinear, and utilities that meet their
  contracts (midpoint, rotation by 90 degrees about a pivot, intersection of the
  infinite extensions of two lines, Euclidean distance), the three-point \<open>Circle\<close> has a
  defined origin that is at the same distance from A, B and C, and its radius is that
  distance. Distances are exact here; the source computes them in floating point.
\<close>

theorem Circle_3points_equidistant:
  assumes "middle_contract U" and "rotate90_contract U" and "slope_intersection_contract U"
    and "distance_contract U" and "\<not> collinear3 a b c"
  shows "\<exists>p. origin (Circle U (Circle_3points a b c)) = Some p \<and>
             euclid p a = euclid p b \<and> euclid p b = euclid p c \<and>
             radius (Circle U (Circle_3points a b c)) = Some (euclid p a) \<and>
             ptype (Circle U (Circle_3points a b c)) = Some pathType_Circle"
proof -
  from Circle_3points_circumcenter [OF assms(1,2,3,5), of empty_circle]
  obtain p where p: "origin (Circle U (Circle_3points a b c)) = Some p"
    and eq: "euclid p a = euclid p b" "euclid p b = euclid p c"
    unfolding Circle_def by blast
  have "radius (Circle U (Circle_3points a b c)) = Some (euclid p a)"
    using p by (simp add: Circle_def Circle_3points_radius distance_contract_euclid [OF assms(4)])
  moreover have "ptype (Circle U (Circle_3points a b c)) = Some pathType_Circle"
    by (simp add: Circle_def Circle_body.simps Let_def)
  ultimately show ?thesis using p eq by blast
qed

theorem Circle_3points_equidistant_witness:
  "origin (Circle exact_utilities (Circle_3points (0, 0) (2, 0) (0, 2))) = Some (1, 1) \<and>
   radius (Circle exact_utilities (Circle_3points (0, 0) (2, 0) (0, 2))) = Some (sqrt 2) \<and>
   euclid (1, 1) (0, 0) = euclid (1, 1) (2, 0) \<and> euclid (1, 1) (2, 0) = euclid (1, 1) (0, 2)"
proof -
  have nc: "\<not> collinear3 (0, 0) (2, 0) (0, 2)"
    by (simp add: collinear3_def cross_def)
  have o: "origin (Circle exact_utilities (Circle_3points (0, 0) (2, 0) (0, 2))) = Some (1, 1)"
    by (simp add: Circle_def Circle_3points_origin)
       (simp add: exact_utilities_def exact_fromSlopeIntersection_def exact_rotate_def
          midpoint_of_def Line_def direction_def cross_def Let_def)
  from Circle_3points_equidistant
         [OF exact_middle_contract exact_rotate90_contract exact_slope_intersection_contract
             exact_distance_contract nc]
  show ?thesis
    unfolding o by (auto simp add: euclid_def)
qed

section \<open>The exact angle utility meets its contract\<close>

lemma sqrt_one_plus_ratio:
  fixes x y :: real
  assumes "x \<noteq> 0"
  shows "sqrt (1 + (y / x)\<^sup>2) = sqrt (x\<^sup>2 + y\<^sup>2) / \<bar>x\<bar>"
proof -
  have "1 + (y / x)\<^sup>2 = (x\<^sup>2 + y\<^sup>2) / x\<^sup>2"
    using assms by (simp add: field_simps power2_eq_square)
  then show ?thesis
    by (simp add: real_sqrt_divide)
qed

lemma polar_arctan:
  fixes x y :: real
  assumes "x \<noteq> 0"
  shows "sqrt (x\<^sup>2 + y\<^sup>2) * cos (arctan (y / x)) = \<bar>x\<bar>"
    and "sqrt (x\<^sup>2 + y\<^sup>2) * sin (arctan (y / x)) = \<bar>x\<bar> * (y / x)"
proof -
  have pos: "0 < sqrt (x\<^sup>2 + y\<^sup>2)"
    using assms by (simp add: sum_power2_gt_zero_iff)
  show "sqrt (x\<^sup>2 + y\<^sup>2) * cos (arctan (y / x)) = \<bar>x\<bar>"
    using pos assms by (simp add: cos_arctan sqrt_one_plus_ratio)
  show "sqrt (x\<^sup>2 + y\<^sup>2) * sin (arctan (y / x)) = \<bar>x\<bar> * (y / x)"
    using pos assms by (simp add: sin_arctan sqrt_one_plus_ratio)
qed

lemma degrees_range:
  fixes t :: real
  assumes "0 \<le> t * pi / 180" and "t * pi / 180 < 2 * pi"
  shows "0 \<le> t" and "t < 360"
proof -
  from assms(1) have "0 \<le> t * pi" by simp
  then show "0 \<le> t"
    using pi_gt_zero by (simp add: zero_le_mult_iff)
  from assms(2) have "t * pi < 360 * pi" by simp
  then show "t < 360"
    using pi_gt_zero by simp
qed

lemma exact_angle_polar:
  fixes x y :: real
  defines "t \<equiv> exact_angle (x, y)"
  shows "0 \<le> t \<and> t < 360 \<and>
         x = sqrt (x\<^sup>2 + y\<^sup>2) * cos (t * pi / 180) \<and>
         y = sqrt (x\<^sup>2 + y\<^sup>2) * sin (t * pi / 180)"
proof -
  consider (q1) "0 < x" "0 \<le> y" | (q4) "0 < x" "y < 0" | (left) "x < 0"
    | (up) "x = 0" "0 < y" | (down) "x = 0" "y < 0" | (zero) "x = 0" "y = 0"
    by linarith
  then show ?thesis
  proof cases
    case q1
    then have rad: "t * pi / 180 = arctan (y / x)"
      by (simp add: t_def exact_angle_def)
    have "0 \<le> arctan (y / x)" using q1 by simp
    moreover have "arctan (y / x) < pi / 2" by (rule arctan_ubound)
    ultimately have "0 \<le> t * pi / 180" "t * pi / 180 < 2 * pi"
      unfolding rad using pi_gt_zero by linarith+
    then have "0 \<le> t" "t < 360"
      by (rule degrees_range)+
    then show ?thesis
      unfolding rad using q1 polar_arctan [of x y] by simp
  next
    case q4
    then have rad: "t * pi / 180 = arctan (y / x) + 2 * pi"
      by (simp add: t_def exact_angle_def field_simps)
    have "arctan (y / x) < 0" using q4 by (simp add: divide_neg_pos)
    moreover have "- (pi / 2) < arctan (y / x)" by (rule arctan_lbound)
    ultimately have "0 \<le> t * pi / 180" "t * pi / 180 < 2 * pi"
      unfolding rad using pi_gt_zero by linarith+
    then have "0 \<le> t" "t < 360"
      by (rule degrees_range)+
    then show ?thesis
      unfolding rad using q4 polar_arctan [of x y] by simp
  next
    case left
    then have rad: "t * pi / 180 = arctan (y / x) + pi"
      by (simp add: t_def exact_angle_def field_simps)
    have "arctan (y / x) < pi / 2" by (rule arctan_ubound)
    moreover have "- (pi / 2) < arctan (y / x)" by (rule arctan_lbound)
    ultimately have "0 \<le> t * pi / 180" "t * pi / 180 < 2 * pi"
      unfolding rad using pi_gt_zero by linarith+
    then have "0 \<le> t" "t < 360"
      by (rule degrees_range)+
    then show ?thesis
      unfolding rad using left polar_arctan [of x y] by simp
  next
    case up
    then have "t = 90" by (simp add: t_def exact_angle_def)
    then show ?thesis using up by simp
  next
    case down
    then have "t = 270" by (simp add: t_def exact_angle_def)
    moreover have "cos (3 * pi / 2) = 0" and "sin (3 * pi / 2) = - 1"
      using cos_3over2_pi sin_3over2_pi by simp_all
    ultimately show ?thesis using down by simp
  next
    case zero
    then have "t = 0" by (simp add: t_def exact_angle_def)
    then show ?thesis using zero by simp
  qed
qed

lemma exact_angle_contract: "angle_contract exact_utilities"
  unfolding angle_contract_def
proof (intro allI)
  fix p q :: IPoint
  show "is_angle_of (angle_ofPointInDegrees exact_utilities (Some p) q) p q"
    using exact_angle_polar [of "fst q - fst p" "snd q - snd p"]
    by (simp add: is_angle_of_def exact_utilities_def or_zero_def euclid_def)
qed

section \<open>Arc from three points\<close>

lemma norm360_small:
  assumes "- 360 < d" and "d < 360"
  shows "norm360 d = (if d < 0 then d + 360 else d)"
proof (cases "d < 0")
  case True
  then have "\<lfloor>d / 360\<rfloor> = - 1"
    using assms by (intro floor_unique) simp_all
  then show ?thesis using True by (simp add: norm360_def)
next
  case False
  then have "\<lfloor>d / 360\<rfloor> = 0"
    using assms by (intro floor_unique) simp_all
  then show ?thesis using False by (simp add: norm360_def)
qed

lemma complementary_span:
  assumes "0 \<le> s" "s < 360" "0 \<le> e" "e < 360" "0 \<le> t" "t < 360" "s \<noteq> e"
    and "\<not> strictly_within_span s e t"
  shows "within_span e s t"
proof -
  have "norm360 (t - s) = (if t - s < 0 then t - s + 360 else t - s)"
    and "norm360 (e - s) = (if e - s < 0 then e - s + 360 else e - s)"
    and "norm360 (t - e) = (if t - e < 0 then t - e + 360 else t - e)"
    and "norm360 (s - e) = (if s - e < 0 then s - e + 360 else s - e)"
    using assms by (simp_all add: norm360_small)
  then show ?thesis
    using assms unfolding within_span_def strictly_within_span_def
    by (auto split: if_splits)
qed

lemma exact_between_contract: "between_contract exact_utilities"
  by (auto simp add: between_contract_def exact_utilities_def exact_isBetweenArcAngles_def
      within_span_def strictly_within_span_def)

lemma angle_contract_is_angle_of:
  "angle_contract U \<Longrightarrow> is_angle_of (angle_ofPointInDegrees U (Some p) q) p q"
  unfolding angle_contract_def by blast

lemma is_angle_of_same_angle:
  assumes "is_angle_of t p q" and "is_angle_of t p q'" and "euclid p q = euclid p q'"
  shows "q = q'"
proof -
  have "fst q - fst p = fst q' - fst p" and "snd q - snd p = snd q' - snd p"
    using assms by (simp_all add: is_angle_of_def)
  then show ?thesis by (simp add: prod_eq_iff)
qed

lemma collinear3_same_ends: "collinear3 a b a"
  by (simp add: collinear3_def cross_def algebra_simps)

lemma Arc_3points_unfold:
  "Arc U (Arc_3points a b c) =
     (let circle = Circle_body U (Circle_3points a b c) empty_arc;
          ta = angle_ofPointInDegrees U (origin circle) a;
          tb = angle_ofPointInDegrees U (origin circle) b;
          tc = angle_ofPointInDegrees U (origin circle) c;
          tentative = circle\<lparr>startAngle := Some ta, endAngle := Some tc\<rparr>
      in if measure_isBetweenArcAngles U tb tentative False
         then tentative\<lparr>ptype := Some pathType_Arc\<rparr>
         else tentative\<lparr>startAngle := Some tc, endAngle := Some ta, ptype := Some pathType_Arc\<rparr>)"
  by (simp add: Arc.simps Let_def)

text \<open>
  Claim C4. For three points that are not collinear, and utilities that meet their
  contracts, the three-point \<open>Arc\<close> has the circumcentre as origin, and its \<open>startAngle\<close>
  and \<open>endAngle\<close> are the angles of A and C from that centre: in this order when
  \<open>measure.isBetweenArcAngles\<close> finds the angle of B in the tentative arc from A to C, and
  swapped when it does not. In both cases the angle of B lies within the span from
  \<open>startAngle\<close> to \<open>endAngle\<close> of the returned arc.
\<close>

theorem Arc_3points_contains_through_point:
  assumes "middle_contract U" and "rotate90_contract U" and "slope_intersection_contract U"
    and "angle_contract U" and "between_contract U" and "\<not> collinear3 a b c"
  shows "\<exists>p s e. origin (Arc U (Arc_3points a b c)) = Some p \<and>
           euclid p a = euclid p b \<and> euclid p b = euclid p c \<and>
           startAngle (Arc U (Arc_3points a b c)) = Some s \<and>
           endAngle (Arc U (Arc_3points a b c)) = Some e \<and>
           ptype (Arc U (Arc_3points a b c)) = Some pathType_Arc \<and>
           (s, e) =
             (if measure_isBetweenArcAngles U (angle_ofPointInDegrees U (Some p) b)
                   ((Circle_body U (Circle_3points a b c) empty_arc)
                      \<lparr>startAngle := Some (angle_ofPointInDegrees U (Some p) a),
                       endAngle := Some (angle_ofPointInDegrees U (Some p) c)\<rparr>) False
              then (angle_ofPointInDegrees U (Some p) a, angle_ofPointInDegrees U (Some p) c)
              else (angle_ofPointInDegrees U (Some p) c, angle_ofPointInDegrees U (Some p) a)) \<and>
           within_span s e (angle_ofPointInDegrees U (Some p) b)"
proof -
  define circle where "circle = Circle_body U (Circle_3points a b c) empty_arc"
  from Circle_3points_circumcenter [OF assms(1,2,3,6), of empty_arc]
  obtain p where p: "origin circle = Some p"
    and eq: "euclid p a = euclid p b" "euclid p b = euclid p c"
    unfolding circle_def by blast
  define ta where "ta = angle_ofPointInDegrees U (Some p) a"
  define tb where "tb = angle_ofPointInDegrees U (Some p) b"
  define tc where "tc = angle_ofPointInDegrees U (Some p) c"
  define tentative where "tentative = circle\<lparr>startAngle := Some ta, endAngle := Some tc\<rparr>"
  have a: "is_angle_of ta p a" and b: "is_angle_of tb p b" and c: "is_angle_of tc p c"
    unfolding ta_def tb_def tc_def by (rule angle_contract_is_angle_of [OF assms(4)])+
  have "a \<noteq> c"
    using assms(6) collinear3_same_ends [of a b] by auto
  then have "ta \<noteq> tc"
    using is_angle_of_same_angle [of ta p a c] a c eq by auto
  have range: "0 \<le> ta" "ta < 360" "0 \<le> tb" "tb < 360" "0 \<le> tc" "tc < 360"
    using a b c by (simp_all add: is_angle_of_def)
  have tent: "startAngle tentative = Some ta" "endAngle tentative = Some tc"
    "origin tentative = Some p"
    by (simp_all add: tentative_def p)
  from assms(5) tent have
    yes: "measure_isBetweenArcAngles U tb tentative False \<Longrightarrow> within_span ta tc tb"
    and no: "\<not> measure_isBetweenArcAngles U tb tentative False \<Longrightarrow> \<not> strictly_within_span ta tc tb"
    unfolding between_contract_def by blast+
  have arc: "Arc U (Arc_3points a b c) =
      (if measure_isBetweenArcAngles U tb tentative False
       then tentative\<lparr>ptype := Some pathType_Arc\<rparr>
       else tentative\<lparr>startAngle := Some tc, endAngle := Some ta, ptype := Some pathType_Arc\<rparr>)"
    unfolding Arc_3points_unfold Let_def tentative_def ta_def tb_def tc_def circle_def [symmetric] p
    by (rule refl)
  show ?thesis
  proof (cases "measure_isBetweenArcAngles U tb tentative False")
    case True
    with arc have "Arc U (Arc_3points a b c) = tentative\<lparr>ptype := Some pathType_Arc\<rparr>"
      by simp
    then have "origin (Arc U (Arc_3points a b c)) = Some p"
      "startAngle (Arc U (Arc_3points a b c)) = Some ta"
      "endAngle (Arc U (Arc_3points a b c)) = Some tc"
      "ptype (Arc U (Arc_3points a b c)) = Some pathType_Arc"
      by (simp_all add: tent)
    moreover have "within_span ta tc tb" using True by (rule yes)
    ultimately show ?thesis
      using True eq unfolding tentative_def circle_def ta_def tb_def tc_def by auto
  next
    case False
    with arc have "Arc U (Arc_3points a b c) =
        tentative\<lparr>startAngle := Some tc, endAngle := Some ta, ptype := Some pathType_Arc\<rparr>"
      by simp
    then have "origin (Arc U (Arc_3points a b c)) = Some p"
      "startAngle (Arc U (Arc_3points a b c)) = Some tc"
      "endAngle (Arc U (Arc_3points a b c)) = Some ta"
      "ptype (Arc U (Arc_3points a b c)) = Some pathType_Arc"
      by (simp_all add: tent)
    moreover have "within_span tc ta tb"
      using range \<open>ta \<noteq> tc\<close> no [OF False] by (intro complementary_span) simp_all
    ultimately show ?thesis
      using False eq unfolding tentative_def circle_def ta_def tb_def tc_def by auto
  qed
qed

lemma Arc_3points_origin:
  "origin (Arc U (Arc_3points a b c)) = origin (Circle_body U (Circle_3points a b c) empty_arc)"
  by (simp add: Arc_3points_unfold Let_def)

theorem Arc_3points_contains_through_point_witness:
  "origin (Arc exact_utilities (Arc_3points (- 1, 0) (0, 1) (1, 0))) = Some (0, 0) \<and>
   startAngle (Arc exact_utilities (Arc_3points (- 1, 0) (0, 1) (1, 0))) = Some 0 \<and>
   endAngle (Arc exact_utilities (Arc_3points (- 1, 0) (0, 1) (1, 0))) = Some 180 \<and>
   angle_ofPointInDegrees exact_utilities (Some (0, 0)) (0, 1) = 90 \<and>
   within_span 0 180 90"
proof -
  have nc: "\<not> collinear3 (- 1, 0) (0, 1) (1, 0)"
    by (simp add: collinear3_def cross_def)
  have o: "origin (Arc exact_utilities (Arc_3points (- 1, 0) (0, 1) (1, 0))) = Some (0, 0)"
    by (simp add: Arc_3points_origin Circle_3points_origin)
       (simp add: exact_utilities_def exact_fromSlopeIntersection_def exact_rotate_def
          midpoint_of_def Line_def direction_def cross_def Let_def)
  have west: "angle_ofPointInDegrees exact_utilities (Some (0, 0)) (- 1, 0) = 180"
    and north: "angle_ofPointInDegrees exact_utilities (Some (0, 0)) (0, 1) = 90"
    and east: "angle_ofPointInDegrees exact_utilities (Some (0, 0)) (1, 0) = 0"
    by (simp_all add: exact_utilities_def or_zero_def exact_angle_def)
  have "norm360 (- 90) = 270" and "norm360 (- 180) = 180"
    by (simp_all add: norm360_small)
  then have outside: "\<not> measure_isBetweenArcAngles exact_utilities 90
      (circle\<lparr>startAngle := Some 180, endAngle := Some 0\<rparr>) False" for circle :: IPathArc
    by (simp add: exact_utilities_def exact_isBetweenArcAngles_def)
  from Arc_3points_contains_through_point
         [OF exact_middle_contract exact_rotate90_contract exact_slope_intersection_contract
             exact_angle_contract exact_between_contract nc]
  show ?thesis
    unfolding o by (auto simp add: west north east outside)
qed

section \<open>Arc: the two candidate centres of the SVG-style construction\<close>

lemma on_circle_euclid: "on_circle p c r \<Longrightarrow> euclid p c = r"
proof -
  assume "on_circle p c r"
  then have "0 \<le> r" and "(fst c - fst p)\<^sup>2 + (snd c - snd p)\<^sup>2 = r\<^sup>2"
    by (simp_all add: on_circle_def power2_commute)
  then show ?thesis by (simp add: euclid_def)
qed

lemma on_circle_reflect:
  assumes "on_circle p a r" and "on_circle p b r"
  shows "on_circle (fst a + fst b - fst p, snd a + snd b - snd p) a r"
    and "on_circle (fst a + fst b - fst p, snd a + snd b - snd p) b r"
  using assms by (simp_all add: on_circle_def power2_commute)

lemma two_centers_on_circles:
  assumes "two_centers a b r c0 c1"
  shows "on_circle c0 a r" "on_circle c0 b r" "on_circle c1 a r" "on_circle c1 b r" "c0 \<noteq> c1"
  using assms unfolding two_centers_def by blast+

lemma two_centers_member:
  assumes "two_centers a b r c0 c1" and "on_circle p a r" and "on_circle p b r"
  shows "p = c0 \<or> p = c1"
  using assms unfolding two_centers_def by blast

lemma two_centers_opposite:
  assumes "two_centers a b r c0 c1"
  shows "fst c1 = fst a + fst b - fst c0 \<and> snd c1 = snd a + snd b - snd c0"
proof -
  note on = two_centers_on_circles [OF assms]
  let ?m0 = "(fst a + fst b - fst c0, snd a + snd b - snd c0)"
  let ?m1 = "(fst a + fst b - fst c1, snd a + snd b - snd c1)"
  have m0: "?m0 = c0 \<or> ?m0 = c1"
    using on_circle_reflect [OF on(1,2)] by (rule two_centers_member [OF assms])
  have m1: "?m1 = c0 \<or> ?m1 = c1"
    using on_circle_reflect [OF on(3,4)] by (rule two_centers_member [OF assms])
  have "?m0 \<noteq> c0"
  proof
    assume fixed: "?m0 = c0"
    from m1 show False
    proof
      assume "?m1 = c0"
      with fixed have "c1 = c0" by (simp add: prod_eq_iff)
      with on(5) show False by simp
    next
      assume "?m1 = c1"
      with fixed have "c1 = c0" by (simp add: prod_eq_iff)
      with on(5) show False by simp
    qed
  qed
  with m0 have "?m0 = c1" by simp
  then show ?thesis by (simp add: prod_eq_iff)
qed

lemma two_centers_radius_positive:
  assumes "two_centers a b r c0 c1"
  shows "0 < r"
proof (rule ccontr)
  note on = two_centers_on_circles [OF assms]
  assume "\<not> 0 < r"
  with on(1) have r: "r = 0" by (simp add: on_circle_def)
  from on(1) r have "c0 = a"
    by (simp add: on_circle_def prod_eq_iff sum_power2_eq_zero_iff)
  moreover from on(3) r have "c1 = a"
    by (simp add: on_circle_def prod_eq_iff sum_power2_eq_zero_iff)
  ultimately show False using on(5) by simp
qed

lemma two_centers_distinct_ends:
  assumes "two_centers a b r c0 c1"
  shows "a \<noteq> b"
proof
  note on = two_centers_on_circles [OF assms]
  assume same: "a = b"
  let ?q = "(fst a - (snd c0 - snd a), snd a + (fst c0 - fst a))"
  have "on_circle ?q a r"
    using on(1) by (simp add: on_circle_def power2_eq_square algebra_simps)
  then have "?q = c0 \<or> ?q = c1"
    using same by (intro two_centers_member [OF assms]) simp_all
  moreover have c1: "fst c1 = 2 * fst a - fst c0" "snd c1 = 2 * snd a - snd c0"
    using two_centers_opposite [OF assms] same by simp_all
  ultimately have "fst c0 = fst a \<and> snd c0 = snd a"
    by (auto simp add: prod_eq_iff)
  with c1 have "c1 = c0" by (simp add: prod_eq_iff)
  with on(5) show False by simp
qed

lemma opposite_angles:
  assumes t: "0 \<le> t" "t < 360" and t': "0 \<le> t'" "t' < 360"
    and c: "cos (t' * pi / 180) = - cos (t * pi / 180)"
    and s: "sin (t' * pi / 180) = - sin (t * pi / 180)"
  shows "t' = t + 180 \<or> t' = t - 180"
proof -
  have "sin (t' * pi / 180) = sin (t * pi / 180 + pi) \<and>
        cos (t' * pi / 180) = cos (t * pi / 180 + pi)"
    using c s by simp
  then obtain n :: int where n: "t' * pi / 180 = t * pi / 180 + pi + 2 * pi * n"
    unfolding sin_cos_eq_iff by blast
  have "t' * pi / 180 = (t / 180 + 1 + 2 * n) * pi"
    using n by (simp add: algebra_simps)
  then have eq: "t' / 180 = t / 180 + 1 + 2 * real_of_int n"
    by simp
  then have "real_of_int n < 1" and "- 2 < real_of_int n"
    using t t' by auto
  then have "n = 0 \<or> n = - 1"
    by linarith
  then show ?thesis using eq by auto
qed

lemma is_angle_of_opposite:
  assumes "is_angle_of t p q" and "is_angle_of t' p' q'"
    and "fst q' - fst p' = - (fst q - fst p)" and "snd q' - snd p' = - (snd q - snd p)"
    and "0 < euclid p q"
  shows "t' = t + 180 \<or> t' = t - 180"
proof -
  have d: "euclid p' q' = euclid p q"
    unfolding euclid_def assms(3,4) power2_minus by (rule refl)
  have c: "euclid p q * cos (t' * pi / 180) = euclid p q * (- cos (t * pi / 180))"
    and s: "euclid p q * sin (t' * pi / 180) = euclid p q * (- sin (t * pi / 180))"
    using assms(1,2,3,4) unfolding is_angle_of_def d by simp_all
  have nz: "euclid p q \<noteq> 0"
    using assms(5) by simp
  have "cos (t' * pi / 180) = - cos (t * pi / 180)"
    and "sin (t' * pi / 180) = - sin (t * pi / 180)"
    using c s nz by (simp_all only: mult_left_cancel [OF nz])
  then show ?thesis
    using assms(1,2) by (intro opposite_angles) (simp_all add: is_angle_of_def)
qed

lemma Arc_span_unfold:
  "Arc_span U a b clockwise c =
     (let s = angle_ofPointInDegrees U c (if clockwise then b else a);
          e = angle_ofPointInDegrees U c (if clockwise then a else b)
      in \<lparr>span_origin = c, span_startAngle = s,
          span_endAngle = (if e < s then e + 360 else e),
          span_size = (if e < s then e + 360 else e) - s\<rparr>)"
  by (simp add: Arc_span_def Arc_candidateAngles_def Let_def)

lemma Arc_span_size_nonneg:
  assumes "angle_contract U"
  shows "0 \<le> span_size (Arc_span U a b clockwise (Some c)) \<and>
         span_size (Arc_span U a b clockwise (Some c)) < 360"
proof -
  have "is_angle_of (angle_ofPointInDegrees U (Some c) a) c a"
    and "is_angle_of (angle_ofPointInDegrees U (Some c) b) c b"
    by (rule angle_contract_is_angle_of [OF assms])+
  then show ?thesis
    by (auto simp add: Arc_span_unfold Let_def is_angle_of_def)
qed

lemma two_centers_complementary_spans:
  assumes "angle_contract U" and "two_centers a b r c0 c1"
  shows "span_size (Arc_span U a b clockwise (Some c0)) +
         span_size (Arc_span U a b clockwise (Some c1)) = 360"
proof -
  note on = two_centers_on_circles [OF assms(2)]
  note opp = two_centers_opposite [OF assms(2)]
  have r: "0 < r" by (rule two_centers_radius_positive [OF assms(2)])
  define a0 where "a0 = angle_ofPointInDegrees U (Some c0) a"
  define b0 where "b0 = angle_ofPointInDegrees U (Some c0) b"
  define a1 where "a1 = angle_ofPointInDegrees U (Some c1) a"
  define b1 where "b1 = angle_ofPointInDegrees U (Some c1) b"
  have ia0: "is_angle_of a0 c0 a" and ib0: "is_angle_of b0 c0 b"
    and ia1: "is_angle_of a1 c1 a" and ib1: "is_angle_of b1 c1 b"
    unfolding a0_def b0_def a1_def b1_def by (rule angle_contract_is_angle_of [OF assms(1)])+
  have d: "euclid c0 a = r" "euclid c0 b = r"
    using on by (simp_all add: on_circle_euclid)
  have "a1 = b0 + 180 \<or> a1 = b0 - 180"
    using ib0 ia1 opp r d by (intro is_angle_of_opposite [of b0 c0 b a1 c1 a]) simp_all
  moreover have "b1 = a0 + 180 \<or> b1 = a0 - 180"
    using ia0 ib1 opp r d by (intro is_angle_of_opposite [of a0 c0 a b1 c1 b]) simp_all
  moreover have "a0 \<noteq> b0"
  proof
    assume "a0 = b0"
    with ia0 ib0 d have "a = b" by (intro is_angle_of_same_angle [of a0 c0 a b]) simp_all
    with two_centers_distinct_ends [OF assms(2)] show False by simp
  qed
  moreover have "0 \<le> a0" "a0 < 360" "0 \<le> b0" "b0 < 360" "0 \<le> a1" "a1 < 360" "0 \<le> b1" "b1 < 360"
    using ia0 ib0 ia1 ib1 by (simp_all add: is_angle_of_def)
  moreover have "span_size (Arc_span U a b clockwise (Some c0)) =
      (if clockwise then (if a0 < b0 then a0 + 360 else a0) - b0
       else (if b0 < a0 then b0 + 360 else b0) - a0)"
    and "span_size (Arc_span U a b clockwise (Some c1)) =
      (if clockwise then (if a1 < b1 then a1 + 360 else a1) - b1
       else (if b1 < a1 then b1 + 360 else b1) - a1)"
    by (simp_all add: Arc_span_unfold Let_def a0_def b0_def a1_def b1_def)
  ultimately show ?thesis
    by (cases clockwise) auto
qed

lemma Arc_spans_two:
  "Arc_spans U a b clockwise [c0, c1] =
     (if span_size (Arc_span U a b clockwise (Some c0)) > span_size (Arc_span U a b clockwise (Some c1))
      then [Arc_span U a b clockwise (Some c1), Arc_span U a b clockwise (Some c0)]
      else [Arc_span U a b clockwise (Some c0), Arc_span U a b clockwise (Some c1)])"
  by (simp add: Arc_spans_unfold Let_def)

text \<open>
  Claim C1. When the two circles of radius \<open>radius\<close> about \<open>pointA\<close> and \<open>pointB\<close> meet in
  exactly two points, these are the two candidate centres. For each candidate,
  \<open>endAngle\<close> is raised by 360 degrees when it is below \<open>startAngle\<close>, so that its span
  size \<open>endAngle - startAngle\<close> is not negative; the list \<open>spans\<close> holds the two
  candidates in ascending order of span size; the two sizes add up to 360 degrees, so
  that the first is at most 180 and the second at least 180 degrees; and the constructor
  takes the candidate at index 0 when \<open>largeArc\<close> is false and the one at index 1 when it
  is true. The angle utility is assumed to meet its contract, and the intersection
  utility to return the two common points.
\<close>

theorem Arc_svg_selects_by_span_size:
  assumes "Arc_origins U a b r = Some [c0, c1]" and "two_centers a b r c0 c1"
    and "angle_contract U"
  shows "(let spans = Arc_spans U a b clockwise [c0, c1];
              selected = spans ! (if largeArc then 1 else 0);
              arc = Arc U (Arc_svg a b r largeArc clockwise)
          in length spans = 2 \<and>
             set spans = {Arc_span U a b clockwise (Some c0), Arc_span U a b clockwise (Some c1)} \<and>
             (\<forall>candidate \<in> set spans.
                span_startAngle candidate =
                  fst (Arc_candidateAngles U a b clockwise (span_origin candidate)) \<and>
                span_endAngle candidate =
                  (if snd (Arc_candidateAngles U a b clockwise (span_origin candidate))
                        < fst (Arc_candidateAngles U a b clockwise (span_origin candidate))
                   then snd (Arc_candidateAngles U a b clockwise (span_origin candidate)) + 360
                   else snd (Arc_candidateAngles U a b clockwise (span_origin candidate))) \<and>
                span_size candidate = span_endAngle candidate - span_startAngle candidate \<and>
                0 \<le> span_size candidate) \<and>
             span_size (spans ! 0) \<le> span_size (spans ! 1) \<and>
             span_size (spans ! 0) + span_size (spans ! 1) = 360 \<and>
             span_size (spans ! 0) \<le> 180 \<and> 180 \<le> span_size (spans ! 1) \<and>
             origin arc = span_origin selected \<and>
             startAngle arc = Some (span_startAngle selected) \<and>
             endAngle arc = Some (span_endAngle selected) \<and>
             radius arc = Some r \<and> ptype arc = Some pathType_Arc \<and>
             (if largeArc then 180 \<le> span_size selected else span_size selected \<le> 180))"
proof -
  define s0 where "s0 = Arc_span U a b clockwise (Some c0)"
  define s1 where "s1 = Arc_span U a b clockwise (Some c1)"
  define spans where "spans = Arc_spans U a b clockwise [c0, c1]"
  have spans: "spans = (if span_size s0 > span_size s1 then [s1, s0] else [s0, s1])"
    unfolding spans_def s0_def s1_def by (rule Arc_spans_two)
  have sum: "span_size s0 + span_size s1 = 360"
    unfolding s0_def s1_def by (rule two_centers_complementary_spans [OF assms(3,2)])
  have nonneg: "0 \<le> span_size s0" "0 \<le> span_size s1"
    unfolding s0_def s1_def using Arc_span_size_nonneg [OF assms(3)] by simp_all
  have shape: "span_startAngle s = fst (Arc_candidateAngles U a b clockwise (span_origin s)) \<and>
      span_endAngle s =
        (if snd (Arc_candidateAngles U a b clockwise (span_origin s))
              < fst (Arc_candidateAngles U a b clockwise (span_origin s))
         then snd (Arc_candidateAngles U a b clockwise (span_origin s)) + 360
         else snd (Arc_candidateAngles U a b clockwise (span_origin s))) \<and>
      span_size s = span_endAngle s - span_startAngle s"
    if "s = s0 \<or> s = s1" for s
    using that unfolding s0_def s1_def
    by (auto simp add: Arc_span_def Let_def split: prod.split)
  have len: "length spans = 2" and elems: "set spans = {s0, s1}"
    unfolding spans by auto
  have order: "span_size (spans ! 0) \<le> span_size (spans ! 1)"
    and total: "span_size (spans ! 0) + span_size (spans ! 1) = 360"
    unfolding spans using sum by auto
  then have halves: "span_size (spans ! 0) \<le> 180" "180 \<le> span_size (spans ! 1)"
    by linarith+
  have arc: "Arc U (Arc_svg a b r largeArc clockwise) =
      \<lparr>ptype = Some pathType_Arc, origin = span_origin (spans ! (if largeArc then 1 else 0)),
       radius = Some r,
       startAngle = Some (span_startAngle (spans ! (if largeArc then 1 else 0))),
       endAngle = Some (span_endAngle (spans ! (if largeArc then 1 else 0)))\<rparr>"
    unfolding spans_def using Arc_svg_fields [OF assms(1), of largeArc clockwise]
    by (simp add: Let_def)
  have "\<forall>candidate \<in> set spans.
          span_startAngle candidate =
            fst (Arc_candidateAngles U a b clockwise (span_origin candidate)) \<and>
          span_endAngle candidate =
            (if snd (Arc_candidateAngles U a b clockwise (span_origin candidate))
                  < fst (Arc_candidateAngles U a b clockwise (span_origin candidate))
             then snd (Arc_candidateAngles U a b clockwise (span_origin candidate)) + 360
             else snd (Arc_candidateAngles U a b clockwise (span_origin candidate))) \<and>
          span_size candidate = span_endAngle candidate - span_startAngle candidate \<and>
          0 \<le> span_size candidate"
    unfolding elems using shape nonneg by auto
  then show ?thesis
    unfolding Let_def spans_def [symmetric] s0_def [symmetric] s1_def [symmetric] arc
    using len elems order total halves by simp
qed

lemma unit_circles_two_centers: "two_centers (1, 0) (0, 1) 1 (0, 0) (1, 1)"
proof -
  have "(on_circle (x, y) (1, 0) 1 \<and> on_circle (x, y) (0, 1) 1) =
        ((x, y) = (0, 0) \<or> (x, y) = (1, 1))" for x y :: real
  proof
    assume "on_circle (x, y) (1, 0) 1 \<and> on_circle (x, y) (0, 1) 1"
    then have e1: "(x - 1)\<^sup>2 + y\<^sup>2 = 1" and e2: "x\<^sup>2 + (y - 1)\<^sup>2 = 1"
      by (simp_all add: on_circle_def)
    from e1 e2 have "x = y"
      by (simp add: power2_eq_square algebra_simps)
    with e1 have "x * (x - 1) = 0"
      by (simp add: power2_eq_square algebra_simps)
    then have "x = 0 \<or> x = 1" by simp
    with \<open>x = y\<close> show "(x, y) = (0, 0) \<or> (x, y) = (1, 1)" by auto
  next
    assume "(x, y) = (0, 0) \<or> (x, y) = (1, 1)"
    then show "on_circle (x, y) (1, 0) 1 \<and> on_circle (x, y) (0, 1) 1"
      by (auto simp add: on_circle_def)
  qed
  then show ?thesis
    unfolding two_centers_def by auto
qed

lemma exact_origins_unit_circles:
  "Arc_origins exact_utilities (1, 0) (0, 1) 1 = Some [(0, 0), (1, 1)]"
proof -
  have "sqrt (1 / 4) = 1 / 2"
    by (simp add: real_sqrt_divide)
  then show ?thesis
    by (simp add: Arc_origins_def exact_utilities_def exact_intersection_def Circle_def
        Circle_body.simps empty_circle_def Let_def power2_eq_square)
qed

theorem Arc_svg_selects_by_span_size_witness:
  "Arc_origins exact_utilities (1, 0) (0, 1) 1 = Some [(0, 0), (1, 1)] \<and>
   map span_size (Arc_spans exact_utilities (1, 0) (0, 1) False [(0, 0), (1, 1)]) = [90, 270] \<and>
   Arc exact_utilities (Arc_svg (1, 0) (0, 1) 1 False False) =
     \<lparr>ptype = Some pathType_Arc, origin = Some (0, 0), radius = Some 1,
      startAngle = Some 0, endAngle = Some 90\<rparr> \<and>
   Arc exact_utilities (Arc_svg (1, 0) (0, 1) 1 True False) =
     \<lparr>ptype = Some pathType_Arc, origin = Some (1, 1), radius = Some 1,
      startAngle = Some 270, endAngle = Some 540\<rparr>"
proof -
  have s0: "Arc_span exact_utilities (1, 0) (0, 1) False (Some (0, 0)) =
      \<lparr>span_origin = Some (0, 0), span_startAngle = 0, span_endAngle = 90, span_size = 90\<rparr>"
    by (simp add: Arc_span_unfold exact_utilities_def or_zero_def exact_angle_def)
  have s1: "Arc_span exact_utilities (1, 0) (0, 1) False (Some (1, 1)) =
      \<lparr>span_origin = Some (1, 1), span_startAngle = 270, span_endAngle = 540, span_size = 270\<rparr>"
    by (simp add: Arc_span_unfold exact_utilities_def or_zero_def exact_angle_def)
  have spans: "Arc_spans exact_utilities (1, 0) (0, 1) False [(0, 0), (1, 1)] =
      [\<lparr>span_origin = Some (0, 0), span_startAngle = 0, span_endAngle = 90, span_size = 90\<rparr>,
       \<lparr>span_origin = Some (1, 1), span_startAngle = 270, span_endAngle = 540, span_size = 270\<rparr>]"
    by (simp add: Arc_spans_two s0 s1)
  note inst = Arc_svg_selects_by_span_size
                [OF exact_origins_unit_circles unit_circles_two_centers exact_angle_contract,
                 of False, unfolded Let_def spans]
  have small: "Arc exact_utilities (Arc_svg (1, 0) (0, 1) 1 False False) =
     \<lparr>ptype = Some pathType_Arc, origin = Some (0, 0), radius = Some 1,
      startAngle = Some 0, endAngle = Some 90\<rparr>"
    using inst [of False] by (intro IPathArc.equality) simp_all
  have large: "Arc exact_utilities (Arc_svg (1, 0) (0, 1) 1 True False) =
     \<lparr>ptype = Some pathType_Arc, origin = Some (1, 1), radius = Some 1,
      startAngle = Some 270, endAngle = Some 540\<rparr>"
    using inst [of True] by (intro IPathArc.equality) simp_all
  show ?thesis
    using small large by (simp add: exact_origins_unit_circles spans)
qed

section \<open>Arc: the clockwise flag\<close>

lemma Arc_svg_selected_candidate:
  assumes "Arc_origins U a b r = Some pts"
  shows "\<exists>c. (c = js_index pts 0 \<or> c = js_index pts 1) \<and>
           Arc U (Arc_svg a b r largeArc clockwise) =
             \<lparr>ptype = Some pathType_Arc, origin = c, radius = Some r,
              startAngle = Some (span_startAngle (Arc_span U a b clockwise c)),
              endAngle = Some (span_endAngle (Arc_span U a b clockwise c))\<rparr>"
  by (auto simp add: Arc_svg_fields [OF assms] Arc_spans_unfold Let_def Arc_span_origin)

lemma Arc_span_flip: "Arc_span U a b (\<not> clockwise) c = Arc_span U b a clockwise c"
  by (simp add: Arc_span_def Arc_candidateAngles_def)

lemma Arc_spans_flip: "Arc_spans U a b (\<not> clockwise) pts = Arc_spans U b a clockwise pts"
  by (simp only: Arc_spans_unfold Arc_span_flip)

text \<open>
  Claim C6. In the two-point variant, \<open>startAngle\<close> is the angle of argument A from the
  centre and \<open>endAngle\<close> the angle of argument B when \<open>clockwise\<close> is false (or left out),
  and the other way round when it is true. The SVG-style constructor, when
  \<open>path.intersection\<close> returns \<open>intersectionPoints\<close>, returns an arc whose origin is one
  of the two candidate centres \<open>intersectionPoints[0]\<close> and \<open>intersectionPoints[1]\<close>, whose
  \<open>startAngle\<close> is the angle from that origin of A when \<open>clockwise\<close> is false and of B
  when it is true, and whose \<open>endAngle\<close> is the angle of the other end point, raised by
  360 when it is below \<open>startAngle\<close>; the same holds for each candidate span the
  constructor builds. Flipping the flag is the same as swapping the two end points, for
  every candidate and, when the intersection utility returns the same points for both
  orders of the circles, for the constructed arc. The candidate centres are computed
  without the flag: the spans of both values of the flag have the same set of origins.
\<close>

theorem clockwise_flag_swaps_start_and_end:
  "(Arc_origins U a b r = Some pts \<longrightarrow>
      (let arc = Arc U (Arc_svg a b r largeArc clockwise);
           s = angle_ofPointInDegrees U (origin arc) (if clockwise then b else a);
           e = angle_ofPointInDegrees U (origin arc) (if clockwise then a else b)
       in (origin arc = js_index pts 0 \<or> origin arc = js_index pts 1) \<and>
          startAngle arc = Some s \<and>
          endAngle arc = Some (if e < s then e + 360 else e) \<and>
          radius arc = Some r \<and> ptype arc = Some pathType_Arc)) \<and>
   (Arc_origins U a b r = Some pts \<and> Arc_origins U b a r = Some pts \<longrightarrow>
      Arc U (Arc_svg a b r largeArc (\<not> clockwise)) = Arc U (Arc_svg b a r largeArc clockwise)) \<and>
   (\<forall>candidate \<in> set (Arc_spans U a b clockwise pts).
      (span_origin candidate = js_index pts 0 \<or> span_origin candidate = js_index pts 1) \<and>
      span_startAngle candidate =
        angle_ofPointInDegrees U (span_origin candidate) (if clockwise then b else a) \<and>
      span_endAngle candidate =
        (if angle_ofPointInDegrees U (span_origin candidate) (if clockwise then a else b)
              < angle_ofPointInDegrees U (span_origin candidate) (if clockwise then b else a)
         then angle_ofPointInDegrees U (span_origin candidate) (if clockwise then a else b) + 360
         else angle_ofPointInDegrees U (span_origin candidate) (if clockwise then a else b))) \<and>
   Arc_spans U a b (\<not> clockwise) pts = Arc_spans U b a clockwise pts \<and>
   Arc_candidateAngles U a b False c =
     (angle_ofPointInDegrees U c a, angle_ofPointInDegrees U c b) \<and>
   Arc_candidateAngles U a b True c =
     (angle_ofPointInDegrees U c b, angle_ofPointInDegrees U c a) \<and>
   Arc_candidateAngles U a b (\<not> clockwise) c = prod.swap (Arc_candidateAngles U a b clockwise c) \<and>
   Arc_candidateAngles U a b (\<not> clockwise) c = Arc_candidateAngles U b a clockwise c \<and>
   Arc_span U a b (\<not> clockwise) c = Arc_span U b a clockwise c \<and>
   span_origin (Arc_span U a b clockwise c) = c \<and>
   span_startAngle (Arc_span U a b clockwise c) = fst (Arc_candidateAngles U a b clockwise c) \<and>
   span_endAngle (Arc_span U a b clockwise c) =
     (if snd (Arc_candidateAngles U a b clockwise c) < fst (Arc_candidateAngles U a b clockwise c)
      then snd (Arc_candidateAngles U a b clockwise c) + 360
      else snd (Arc_candidateAngles U a b clockwise c)) \<and>
   set (map span_origin (Arc_spans U a b clockwise pts)) = {js_index pts 0, js_index pts 1} \<and>
   set (map span_origin (Arc_spans U a b (\<not> clockwise) pts)) =
     set (map span_origin (Arc_spans U a b clockwise pts)) \<and>
   origin (Arc U (Arc_2points a b flag)) = Some (point_average U a b) \<and>
   startAngle (Arc U (Arc_2points a b flag)) =
     Some (angle_ofPointInDegrees U (Some (point_average U a b)) (if truthy flag then b else a)) \<and>
   endAngle (Arc U (Arc_2points a b flag)) =
     Some (angle_ofPointInDegrees U (Some (point_average U a b)) (if truthy flag then a else b)) \<and>
   startAngle (Arc U (Arc_2points a b (Some (\<not> clockwise)))) =
     endAngle (Arc U (Arc_2points a b (Some clockwise))) \<and>
   endAngle (Arc U (Arc_2points a b (Some (\<not> clockwise)))) =
     startAngle (Arc U (Arc_2points a b (Some clockwise)))"
proof -
  have svg: "(let arc = Arc U (Arc_svg a b r largeArc clockwise);
                  s = angle_ofPointInDegrees U (origin arc) (if clockwise then b else a);
                  e = angle_ofPointInDegrees U (origin arc) (if clockwise then a else b)
              in (origin arc = js_index pts 0 \<or> origin arc = js_index pts 1) \<and>
                 startAngle arc = Some s \<and>
                 endAngle arc = Some (if e < s then e + 360 else e) \<and>
                 radius arc = Some r \<and> ptype arc = Some pathType_Arc)"
    if "Arc_origins U a b r = Some pts"
  proof -
    from Arc_svg_selected_candidate [OF that, of largeArc clockwise]
    obtain c where c: "c = js_index pts 0 \<or> c = js_index pts 1"
      and arc: "Arc U (Arc_svg a b r largeArc clockwise) =
             \<lparr>ptype = Some pathType_Arc, origin = c, radius = Some r,
              startAngle = Some (span_startAngle (Arc_span U a b clockwise c)),
              endAngle = Some (span_endAngle (Arc_span U a b clockwise c))\<rparr>"
      by blast
    show ?thesis
      unfolding arc using c by (simp add: Arc_span_unfold Let_def)
  qed
  have flip: "Arc U (Arc_svg a b r largeArc (\<not> clockwise)) = Arc U (Arc_svg b a r largeArc clockwise)"
    if "Arc_origins U a b r = Some pts" and "Arc_origins U b a r = Some pts"
    by (simp only: Arc_svg_fields [OF that(1)] Arc_svg_fields [OF that(2)] Arc_spans_flip)
  have candidates: "\<forall>candidate \<in> set (Arc_spans U a b clockwise pts).
      (span_origin candidate = js_index pts 0 \<or> span_origin candidate = js_index pts 1) \<and>
      span_startAngle candidate =
        angle_ofPointInDegrees U (span_origin candidate) (if clockwise then b else a) \<and>
      span_endAngle candidate =
        (if angle_ofPointInDegrees U (span_origin candidate) (if clockwise then a else b)
              < angle_ofPointInDegrees U (span_origin candidate) (if clockwise then b else a)
         then angle_ofPointInDegrees U (span_origin candidate) (if clockwise then a else b) + 360
         else angle_ofPointInDegrees U (span_origin candidate) (if clockwise then a else b))"
    by (simp add: Arc_spans_unfold Let_def Arc_span_unfold)
  have angles: "Arc_candidateAngles U a b (\<not> clockwise) c = Arc_candidateAngles U b a clockwise c"
    by (simp add: Arc_candidateAngles_def)
  have origins: "set (map span_origin (Arc_spans U a b cw pts)) = {js_index pts 0, js_index pts 1}"
    for cw
    by (auto simp add: Arc_spans_unfold Let_def Arc_span_origin)
  have two: "Arc U (Arc_2points a b flag) =
      \<lparr>ptype = Some pathType_Arc, origin = Some (point_average U a b),
       radius = Some (measure_pointDistance U (Some (point_average U a b)) a),
       startAngle = Some (angle_ofPointInDegrees U (Some (point_average U a b))
                            (if truthy flag then b else a)),
       endAngle = Some (angle_ofPointInDegrees U (Some (point_average U a b))
                            (if truthy flag then a else b))\<rparr>" for flag
    by (simp add: Arc.simps Circle_body.simps empty_arc_def Let_def)
  have rest: "Arc_candidateAngles U a b False c =
       (angle_ofPointInDegrees U c a, angle_ofPointInDegrees U c b) \<and>
     Arc_candidateAngles U a b True c =
       (angle_ofPointInDegrees U c b, angle_ofPointInDegrees U c a) \<and>
     Arc_candidateAngles U a b (\<not> clockwise) c = prod.swap (Arc_candidateAngles U a b clockwise c) \<and>
     Arc_candidateAngles U a b (\<not> clockwise) c = Arc_candidateAngles U b a clockwise c \<and>
     Arc_span U a b (\<not> clockwise) c = Arc_span U b a clockwise c \<and>
     span_origin (Arc_span U a b clockwise c) = c \<and>
     span_startAngle (Arc_span U a b clockwise c) = fst (Arc_candidateAngles U a b clockwise c) \<and>
     span_endAngle (Arc_span U a b clockwise c) =
       (if snd (Arc_candidateAngles U a b clockwise c) < fst (Arc_candidateAngles U a b clockwise c)
        then snd (Arc_candidateAngles U a b clockwise c) + 360
        else snd (Arc_candidateAngles U a b clockwise c)) \<and>
     set (map span_origin (Arc_spans U a b clockwise pts)) = {js_index pts 0, js_index pts 1} \<and>
     set (map span_origin (Arc_spans U a b (\<not> clockwise) pts)) =
       set (map span_origin (Arc_spans U a b clockwise pts)) \<and>
     origin (Arc U (Arc_2points a b flag)) = Some (point_average U a b) \<and>
     startAngle (Arc U (Arc_2points a b flag)) =
       Some (angle_ofPointInDegrees U (Some (point_average U a b)) (if truthy flag then b else a)) \<and>
     endAngle (Arc U (Arc_2points a b flag)) =
       Some (angle_ofPointInDegrees U (Some (point_average U a b)) (if truthy flag then a else b)) \<and>
     startAngle (Arc U (Arc_2points a b (Some (\<not> clockwise)))) =
       endAngle (Arc U (Arc_2points a b (Some clockwise))) \<and>
     endAngle (Arc U (Arc_2points a b (Some (\<not> clockwise)))) =
       startAngle (Arc U (Arc_2points a b (Some clockwise)))"
    unfolding two origins Arc_span_flip
    by (simp add: Arc_candidateAngles_def Arc_span_def Let_def truthy_def)
  from svg flip candidates Arc_spans_flip [of U a b clockwise pts] rest
  show ?thesis by blast
qed

theorem clockwise_flag_swaps_start_and_end_witness:
  "Arc exact_utilities (Arc_svg (1, 0) (0, 1) 1 False False) =
     \<lparr>ptype = Some pathType_Arc, origin = Some (0, 0), radius = Some 1,
      startAngle = Some 0, endAngle = Some 90\<rparr> \<and>
   angle_ofPointInDegrees exact_utilities (Some (0, 0)) (1, 0) = 0 \<and>
   angle_ofPointInDegrees exact_utilities (Some (0, 0)) (0, 1) = 90 \<and>
   Arc exact_utilities (Arc_svg (1, 0) (0, 1) 1 False True) =
     \<lparr>ptype = Some pathType_Arc, origin = Some (1, 1), radius = Some 1,
      startAngle = Some 180, endAngle = Some 270\<rparr> \<and>
   angle_ofPointInDegrees exact_utilities (Some (1, 1)) (0, 1) = 180 \<and>
   angle_ofPointInDegrees exact_utilities (Some (1, 1)) (1, 0) = 270 \<and>
   startAngle (Arc exact_utilities (Arc_2points (1, 0) (- 1, 0) None)) = Some 0 \<and>
   endAngle (Arc exact_utilities (Arc_2points (1, 0) (- 1, 0) None)) = Some 180 \<and>
   startAngle (Arc exact_utilities (Arc_2points (1, 0) (- 1, 0) (Some True))) = Some 180 \<and>
   endAngle (Arc exact_utilities (Arc_2points (1, 0) (- 1, 0) (Some True))) = Some 0"
proof -
  have avg: "point_average exact_utilities (1, 0) (- 1, 0) = (0, 0)"
    by (simp add: exact_utilities_def)
  have east: "angle_ofPointInDegrees exact_utilities (Some (0, 0)) (1, 0) = 0"
    and west: "angle_ofPointInDegrees exact_utilities (Some (0, 0)) (- 1, 0) = 180"
    and north: "angle_ofPointInDegrees exact_utilities (Some (0, 0)) (0, 1) = 90"
    and left: "angle_ofPointInDegrees exact_utilities (Some (1, 1)) (0, 1) = 180"
    and down: "angle_ofPointInDegrees exact_utilities (Some (1, 1)) (1, 0) = 270"
    by (simp_all add: exact_utilities_def or_zero_def exact_angle_def)
  have pts: "js_index [(0, 0), (1, 1) :: IPoint] 0 = Some (0, 0)"
    "js_index [(0, 0), (1, 1) :: IPoint] 1 = Some (1, 1)"
    by simp_all
  have counter: "Arc_spans exact_utilities (1, 0) (0, 1) False [(0, 0), (1, 1)] =
      [\<lparr>span_origin = Some (0, 0), span_startAngle = 0, span_endAngle = 90, span_size = 90\<rparr>,
       \<lparr>span_origin = Some (1, 1), span_startAngle = 270, span_endAngle = 540, span_size = 270\<rparr>]"
    by (simp add: Arc_spans_two Arc_span_unfold east north left down)
  have clock: "Arc_spans exact_utilities (1, 0) (0, 1) True [(0, 0), (1, 1)] =
      [\<lparr>span_origin = Some (1, 1), span_startAngle = 180, span_endAngle = 270, span_size = 90\<rparr>,
       \<lparr>span_origin = Some (0, 0), span_startAngle = 90, span_endAngle = 360, span_size = 270\<rparr>]"
    by (simp add: Arc_spans_two Arc_span_unfold east north left down)
  have o0: "origin (Arc exact_utilities (Arc_svg (1, 0) (0, 1) 1 False False)) = Some (0, 0)"
    by (simp add: Arc_svg_fields [OF exact_origins_unit_circles] counter Let_def)
  have o1: "origin (Arc exact_utilities (Arc_svg (1, 0) (0, 1) 1 False True)) = Some (1, 1)"
    by (simp add: Arc_svg_fields [OF exact_origins_unit_circles] clock Let_def)
  note inst = clockwise_flag_swaps_start_and_end
                [of exact_utilities "(1, 0)" _ 1 "[(0, 0), (1, 1)]" False]
  have small: "Arc exact_utilities (Arc_svg (1, 0) (0, 1) 1 False False) =
     \<lparr>ptype = Some pathType_Arc, origin = Some (0, 0), radius = Some 1,
      startAngle = Some 0, endAngle = Some 90\<rparr>"
    using inst [of "(0, 1)" False "Some (0, 0)" None] exact_origins_unit_circles
    by (intro IPathArc.equality) (simp_all add: Let_def o0 east north)
  have other: "Arc exact_utilities (Arc_svg (1, 0) (0, 1) 1 False True) =
     \<lparr>ptype = Some pathType_Arc, origin = Some (1, 1), radius = Some 1,
      startAngle = Some 180, endAngle = Some 270\<rparr>"
    using inst [of "(0, 1)" True "Some (0, 0)" None] exact_origins_unit_circles
    by (intro IPathArc.equality) (simp_all add: Let_def o1 left down)
  have two: "startAngle (Arc exact_utilities (Arc_2points (1, 0) (- 1, 0) None)) = Some 0 \<and>
     endAngle (Arc exact_utilities (Arc_2points (1, 0) (- 1, 0) None)) = Some 180 \<and>
     startAngle (Arc exact_utilities (Arc_2points (1, 0) (- 1, 0) (Some True))) = Some 180 \<and>
     endAngle (Arc exact_utilities (Arc_2points (1, 0) (- 1, 0) (Some True))) = Some 0"
    using inst [of "(- 1, 0)" False "Some (0, 0)" None]
          inst [of "(- 1, 0)" False "Some (0, 0)" "Some True"]
    by (simp add: avg east west truthy_def)
  show ?thesis
    using small other two east north left down by simp
qed

end
